theory Spec2Isabelle
  imports Complex_Main "HOL-Library.Multiset" "HOL-Library.Char_ord" "HOL-Library.List_Lexorder"
begin

section \<open>Data model: the SQLite tables of app.py\<close>

text \<open>
  Each table is the list of its rows in rowid order; a row is a record of the columns the
  modelled routes read or write. Column \<open>id\<close> is \<open>INTEGER PRIMARY KEY AUTOINCREMENT\<close>, a
  natural number. A nullable column is an \<open>option\<close> (\<open>None\<close> is SQL NULL). Money columns are
  \<open>REAL\<close> and the routes compute with Python floats; a money value is the rational number
  that the float denotes. The fee split of add_payment and the running balance of the
  statement round every arithmetic result to the nearest binary64 value (\<open>double_round\<close>
  below), as the floats of the source do; the single differences and the SQL sums elsewhere
  are kept as the exact expression. NaN, infinities, overflow and the reduced precision of
  subnormal numbers are not modelled.
  The status and type columns are free text in the source and stay strings here.
\<close>

record landlord =
  l_id :: nat
  l_full_name :: string

record property =
  p_id :: nat
  p_landlord_id :: nat
  p_price :: "rat option"
  p_status :: string

record unit_row =
  u_id :: nat
  u_property_id :: nat
  u_price :: "rat option"
  u_status :: string
  u_tenant_id :: "nat option"

record tenant =
  t_id :: nat
  t_full_name :: string
  t_property_id :: "nat option"
  t_unit_id :: "nat option"
  t_lease_start_date :: string
  t_lease_end_date :: string

record payment =
  pay_id :: nat
  pay_tenant_id :: nat
  pay_property_id :: nat
  pay_unit_id :: "nat option"
  pay_amount :: rat
  pay_type :: string
  pay_method :: string
  pay_date :: string
  pay_balance_due :: rat
  pay_description :: string
  pay_credit :: "rat option"
  pay_debit :: "rat option"

record landlord_transaction =
  lt_id :: nat
  lt_landlord_id :: nat
  lt_date :: string
  lt_narration :: string
  lt_type :: string
  lt_amount :: rat
  lt_method :: string

record db =
  landlords :: "landlord list"
  properties :: "property list"
  property_units :: "unit_row list"
  tenants :: "tenant list"
  payments :: "payment list"
  landlord_transactions :: "landlord_transaction list"

text \<open>\<open>cursor.lastrowid\<close> of an AUTOINCREMENT table from which no route deletes: one more
  than the largest id in use.\<close>

definition next_id :: "nat list \<Rightarrow> nat" where
  "next_id ids = Suc (fold max ids 0)"

section \<open>Binary floating point\<close>

text \<open>
  Python's \<open>float\<close> is IEEE 754 binary64: a result of \<open>+\<close>, \<open>-\<close> or \<open>*\<close> is the exact result
  rounded to the nearest number with a 53-bit significand, ties to the even significand.
  \<open>normalize_sig\<close> scales a positive number by powers of two until it lies in
  \<open>[2^52, 2^53)\<close>, keeping the scale (the fuel bounds the search and covers every binary64
  exponent); the scaled number is rounded to an integer and scaled back.
\<close>

definition round_half_even :: "rat \<Rightarrow> int" where
  "round_half_even y =
     (let f = \<lfloor>y\<rfloor>; d = y - of_int f
      in if d < 1 / 2 then f else if 1 / 2 < d then f + 1 else if even f then f else f + 1)"

fun normalize_sig :: "nat \<Rightarrow> rat \<Rightarrow> rat \<Rightarrow> rat \<times> rat" where
  "normalize_sig 0 m u = (m, u)"
| "normalize_sig (Suc n) m u =
     (if 2 ^ 53 \<le> m then normalize_sig n (m / 2) (u * 2)
      else if m < 2 ^ 52 then normalize_sig n (m * 2) (u / 2)
      else (m, u))"

definition double_round :: "rat \<Rightarrow> rat" where
  "double_round x =
     (if x = 0 then 0
      else (case normalize_sig 2200 \<bar>x\<bar> 1 of
              (m, u) \<Rightarrow> sgn x * of_int (round_half_even m) * u))"

text \<open>The float operations \<open>x * y\<close>, \<open>x - y\<close>, \<open>x + y\<close> and the literals \<open>0.10\<close> and \<open>0.90\<close>.\<close>

definition fmul :: "rat \<Rightarrow> rat \<Rightarrow> rat" where
  "fmul x y = double_round (x * y)"

definition fsub :: "rat \<Rightarrow> rat \<Rightarrow> rat" where
  "fsub x y = double_round (x - y)"

definition fadd :: "rat \<Rightarrow> rat \<Rightarrow> rat" where
  "fadd x y = double_round (x + y)"

definition c010 :: rat where
  "c010 = double_round (1 / 10)"

definition c090 :: rat where
  "c090 = double_round (9 / 10)"

section \<open>add_payment (POST /payments/add)\<close>

text \<open>The error answers of the modelled routes (\<open>Server_error\<close> is the \<open>except\<close> branch).\<close>

datatype error =
    Missing_fields
  | Invalid_amount
  | Tenant_not_found
  | Unit_not_found
  | Property_not_found
  | Already_assigned
  | Unit_mismatch
  | Unit_not_available
  | Property_not_available
  | Exceeds_outstanding
  | Exceeds_rent
  | Server_error

text \<open>The success messages, with the amounts they print.\<close>

datatype message =
    Renewal_payment rat rat
  | Payment_completed rat
  | Partial_payment rat rat
  | Renewal_partial rat rat rat rat
  | Renewal_full rat rat rat
  | First_partial rat rat
  | First_full rat
  | Tenant_assigned

record payment_form =
  f_tenant_id :: nat
  f_amount :: rat
  f_payment_method :: string
  f_payment_date :: string
  f_description :: string

text \<open>
  The tenant query: \<open>tenants JOIN properties ON t.property_id = p.id LEFT JOIN property_units
  ON t.unit_id = u.id WHERE t.id = ?\<close>, \<open>fetchone()\<close>. No row comes back when the tenant is
  missing, has no property, or names a property that does not exist.
\<close>

definition tenant_row :: "db \<Rightarrow> nat \<Rightarrow> (tenant \<times> property \<times> unit_row option) option" where
  "tenant_row s tid =
     (case find (\<lambda>t. t_id t = tid) (tenants s) of
        None \<Rightarrow> None
      | Some t \<Rightarrow>
          (case t_property_id t of
             None \<Rightarrow> None
           | Some pid \<Rightarrow>
               (case find (\<lambda>p. p_id p = pid) (properties s) of
                  None \<Rightarrow> None
                | Some p \<Rightarrow>
                    Some (t, p,
                      (case t_unit_id t of
                         None \<Rightarrow> None
                       | Some uid \<Rightarrow> find (\<lambda>u. u_id u = uid) (property_units s))))))"

text \<open>\<open>CASE WHEN t.unit_id IS NOT NULL THEN u.price ELSE p.price END as rent_amount\<close>;
  NULL when the chosen price is NULL or the unit row is missing.\<close>

definition rent_amount_of :: "tenant \<Rightarrow> property \<Rightarrow> unit_row option \<Rightarrow> rat option" where
  "rent_amount_of t p u =
     (if t_unit_id t \<noteq> None then (case u of None \<Rightarrow> None | Some u' \<Rightarrow> u_price u')
      else p_price p)"

text \<open>\<open>SELECT SUM(balance_due) ... WHERE tenant_id = ? AND balance_due > 0\<close>, then
  \<open>float(... or 0)\<close>.\<close>

definition total_outstanding :: "db \<Rightarrow> nat \<Rightarrow> rat" where
  "total_outstanding s tid =
     sum_list (map pay_balance_due
       (filter (\<lambda>r. pay_tenant_id r = tid \<and> pay_balance_due r > 0) (payments s)))"

text \<open>\<open>SELECT COUNT(*) ... WHERE tenant_id = ? AND payment_type = 'Full' AND balance_due = 0\<close>.\<close>

definition completed_cycles :: "db \<Rightarrow> nat \<Rightarrow> nat" where
  "completed_cycles s tid =
     length (filter (\<lambda>r. pay_tenant_id r = tid \<and> pay_type r = ''Full'' \<and> pay_balance_due r = 0)
       (payments s))"

text \<open>Payment type and balance, or the rejection (the branch on \<open>total_outstanding > 0\<close>).\<close>

definition classify :: "rat \<Rightarrow> rat \<Rightarrow> rat \<Rightarrow> error + (string \<times> rat)" where
  "classify total_out rent_amount amount =
     (if total_out > 0 then
        (if amount > total_out then Inl Exceeds_outstanding
         else Inr (if amount \<ge> total_out then ''Full'' else ''Partial'',
                   if amount \<ge> total_out then 0 else total_out - amount))
      else
        (if amount > rent_amount then Inl Exceeds_rent
         else Inr (if amount \<ge> rent_amount then ''Full'' else ''Partial'',
                   if amount \<ge> rent_amount then 0 else rent_amount - amount)))"

text \<open>Credit, debit and message of the new row (the branch on \<open>balance_due == 0\<close>):
  \<open>deduction = amount * 0.10\<close> and \<open>credit_amount = amount - deduction\<close> are float
  operations.\<close>

definition credit_debit :: "bool \<Rightarrow> rat \<Rightarrow> rat \<Rightarrow> rat \<Rightarrow> rat \<times> rat \<times> message" where
  "credit_debit is_renewal total_out balance_due amount =
     (if balance_due = 0 then
        (if is_renewal \<and> total_out = 0 then
           (let deduction = fmul amount c010;
                credit_amount = fsub amount deduction
            in (credit_amount, deduction, Renewal_payment credit_amount deduction))
         else (amount, 0, Payment_completed amount))
      else (0, 0, Partial_payment amount balance_due))"

text \<open>\<open>UPDATE payments SET balance_due = 0, payment_type = 'Full'
  WHERE tenant_id = ? AND balance_due > 0 AND id != ?\<close>.\<close>

definition clear_old_partials :: "nat \<Rightarrow> nat \<Rightarrow> payment list \<Rightarrow> payment list" where
  "clear_old_partials tid new_id rows =
     map (\<lambda>r. if pay_tenant_id r = tid \<and> pay_balance_due r > 0 \<and> pay_id r \<noteq> new_id
               then r\<lparr>pay_balance_due := 0, pay_type := ''Full''\<rparr> else r) rows"

text \<open>
  The body of the \<open>try\<close> block. The result is the connection's view of the database at the
  point where the route returns (before \<open>commit\<close> or \<open>rollback\<close> takes effect) and the
  response. \<open>float(tenant['rent_amount'])\<close> raises on NULL; the \<open>except\<close> branch answers 500.
\<close>

definition add_payment_tx :: "db \<Rightarrow> payment_form \<Rightarrow> db \<times> (error + message)" where
  "add_payment_tx s f =
     (case tenant_row s (f_tenant_id f) of
        None \<Rightarrow> (s, Inl Tenant_not_found)
      | Some (t, p, u) \<Rightarrow>
          (case rent_amount_of t p u of
             None \<Rightarrow> (s, Inl Server_error)
           | Some rent_amount \<Rightarrow>
               (let total_out = total_outstanding s (f_tenant_id f);
                    is_renewal = (completed_cycles s (f_tenant_id f) \<ge> 1)
                in case classify total_out rent_amount (f_amount f) of
                     Inl e \<Rightarrow> (s, Inl e)
                   | Inr (payment_type, balance_due) \<Rightarrow>
                       (case credit_debit is_renewal total_out balance_due (f_amount f) of
                          (credit_amount, debit_amount, success_message) \<Rightarrow>
                            (let new_id = next_id (map pay_id (payments s));
                                 row = \<lparr>pay_id = new_id,
                                        pay_tenant_id = f_tenant_id f,
                                        pay_property_id = p_id p,
                                        pay_unit_id = t_unit_id t,
                                        pay_amount = f_amount f,
                                        pay_type = payment_type,
                                        pay_method = f_payment_method f,
                                        pay_date = f_payment_date f,
                                        pay_balance_due = balance_due,
                                        pay_description = f_description f,
                                        pay_credit = Some credit_amount,
                                        pay_debit = Some debit_amount\<rparr>;
                                 inserted = payments s @ [row];
                                 cleared = (if total_out > 0 \<and> balance_due = 0
                                            then clear_old_partials (f_tenant_id f) new_id inserted
                                            else inserted)
                             in (s\<lparr>payments := cleared\<rparr>, Inr success_message))))))"

text \<open>The route: \<open>BEGIN TRANSACTION\<close>, the body, then \<open>rollback\<close> on every error answer and
  \<open>commit\<close> on success. The result is the stored database and the response.\<close>

definition add_payment :: "db \<Rightarrow> payment_form \<Rightarrow> db \<times> (error + message)" where
  "add_payment s f =
     (case add_payment_tx s f of
        (w, Inl e) \<Rightarrow> (s, Inl e)
      | (w, Inr m) \<Rightarrow> (w, Inr m))"

section \<open>renew_rent (POST /properties/renew)\<close>

text \<open>The amount field of the form: absent or empty, not a number, or a number.\<close>

datatype amount_field = Amount_missing | Amount_unparsable | Amount rat

record renew_form =
  n_tenant_id :: "nat option"
  n_new_start_date :: string
  n_new_end_date :: string
  n_amount :: amount_field
  n_payment_method :: string
  n_payment_type :: string
  n_payment_date :: string
  n_description :: string

text \<open>Python truthiness of a value that is \<open>None\<close> or an integer.\<close>

definition truthy :: "nat option \<Rightarrow> bool" where
  "truthy x = (case x of None \<Rightarrow> False | Some n \<Rightarrow> n \<noteq> 0)"

text \<open>
  The tenant query of renew_rent adds \<open>JOIN landlords l ON p.landlord_id = l.id\<close> and selects
  \<open>p.price as property_price\<close> and \<open>u.price as unit_price\<close>.
\<close>

definition renew_tenant_row ::
  "db \<Rightarrow> nat \<Rightarrow> (tenant \<times> property \<times> landlord \<times> unit_row option) option" where
  "renew_tenant_row s tid =
     (case tenant_row s tid of
        None \<Rightarrow> None
      | Some (t, p, u) \<Rightarrow>
          (case find (\<lambda>l. l_id l = p_landlord_id p) (landlords s) of
             None \<Rightarrow> None
           | Some l \<Rightarrow> Some (t, p, l, u)))"

text \<open>\<open>tenant['unit_price'] if unit_id else tenant['property_price']\<close>, where \<open>unit_id\<close> is
  the tenant's own column (the first column of that name in the row); \<open>float\<close> of it raises on
  NULL.\<close>

definition renew_rent_amount :: "tenant \<Rightarrow> property \<Rightarrow> unit_row option \<Rightarrow> rat option" where
  "renew_rent_amount t p u =
     (if truthy (t_unit_id t) then (case u of None \<Rightarrow> None | Some u' \<Rightarrow> u_price u')
      else p_price p)"

text \<open>\<open>balance_due = 0; if payment_type == 'Partial': balance_due = rent_amount - amount\<close>.\<close>

definition renew_balance_due :: "string \<Rightarrow> rat \<Rightarrow> rat \<Rightarrow> rat" where
  "renew_balance_due payment_type rent_amount amount =
     (if payment_type = ''Partial'' then rent_amount - amount else 0)"

text \<open>\<open>description or default\<close>.\<close>

definition or_default :: "string \<Rightarrow> string \<Rightarrow> string" where
  "or_default d dflt = (if d = [] then dflt else d)"

text \<open>
  The body of the \<open>try\<close> block of renew_rent, given the parsed amount. The fee row's narration
  prints the amount in the source; the model keeps its fixed part.
\<close>

definition renew_rent_tx :: "db \<Rightarrow> renew_form \<Rightarrow> nat \<Rightarrow> rat \<Rightarrow> db \<times> (error + message)" where
  "renew_rent_tx s f tid amount =
     (case renew_tenant_row s tid of
        None \<Rightarrow> (s, Inl Tenant_not_found)
      | Some (t, p, l, u) \<Rightarrow>
          (case renew_rent_amount t p u of
             None \<Rightarrow> (s, Inl Server_error)
           | Some rent_amount \<Rightarrow>
               (let is_renewal = (completed_cycles s tid \<ge> 1);
                    balance_due = renew_balance_due (n_payment_type f) rent_amount amount;
                    tenants' = map (\<lambda>r. if t_id r = tid
                                 then r\<lparr>t_lease_start_date := n_new_start_date f,
                                        t_lease_end_date := n_new_end_date f\<rparr> else r) (tenants s);
                    row = \<lparr>pay_id = next_id (map pay_id (payments s)),
                           pay_tenant_id = tid,
                           pay_property_id = p_id p,
                           pay_unit_id = t_unit_id t,
                           pay_amount = amount,
                           pay_type = n_payment_type f,
                           pay_method = n_payment_method f,
                           pay_date = n_payment_date f,
                           pay_balance_due = balance_due,
                           pay_description = or_default (n_description f)
                             (''Lease renewal payment ('' @ n_new_start_date f @ '' to '' @
                              n_new_end_date f @ '')''),
                           pay_credit = None,
                           pay_debit = None\<rparr>;
                    s1 = s\<lparr>tenants := tenants', payments := payments s @ [row]\<rparr>;
                    old = landlord_transactions s;
                    new_lt = next_id (map lt_id old)
                in if is_renewal then
                     (let credit_row = \<lparr>lt_id = new_lt,
                                         lt_landlord_id = p_landlord_id p,
                                         lt_date = n_payment_date f,
                                         lt_narration = or_default (n_description f)
                                           (''Rent renewal - '' @ t_full_name t),
                                         lt_type = ''credit'',
                                         lt_amount = amount,
                                         lt_method = n_payment_method f\<rparr>;
                          deduction_amount = amount * (1 / 10);
                          debit_row = \<lparr>lt_id = Suc new_lt,
                                        lt_landlord_id = p_landlord_id p,
                                        lt_date = n_payment_date f,
                                        lt_narration = ''Management fee deduction'',
                                        lt_type = ''debit'',
                                        lt_amount = deduction_amount,
                                        lt_method = ''Automatic Deduction''\<rparr>;
                          landlord_net_amount = amount - deduction_amount
                      in (s1\<lparr>landlord_transactions := old @ [credit_row, debit_row]\<rparr>,
                          Inr (if n_payment_type f = ''Partial''
                               then Renewal_partial amount landlord_net_amount deduction_amount
                                      balance_due
                               else Renewal_full amount landlord_net_amount deduction_amount)))
                   else
                     (let credit_row = \<lparr>lt_id = new_lt,
                                         lt_landlord_id = p_landlord_id p,
                                         lt_date = n_payment_date f,
                                         lt_narration = or_default (n_description f)
                                           (''Rent payment - '' @ t_full_name t @
                                            '' (First payment)''),
                                         lt_type = ''credit'',
                                         lt_amount = amount,
                                         lt_method = n_payment_method f\<rparr>
                      in (s1\<lparr>landlord_transactions := old @ [credit_row]\<rparr>,
                          Inr (if n_payment_type f = ''Partial''
                               then First_partial amount balance_due
                               else First_full amount))))))"

text \<open>
  The POST branch: the required-field check (\<open>all([...])\<close> over the raw strings), \<open>float(amount)\<close>,
  the transaction, \<open>rollback\<close> on an error and \<open>commit\<close> otherwise.
\<close>

definition renew_rent :: "db \<Rightarrow> renew_form \<Rightarrow> db \<times> (error + message)" where
  "renew_rent s f =
     (case n_tenant_id f of
        None \<Rightarrow> (s, Inl Missing_fields)
      | Some tid \<Rightarrow>
          (if n_new_start_date f = [] \<or> n_new_end_date f = [] \<or> n_amount f = Amount_missing
              \<or> n_payment_method f = []
           then (s, Inl Missing_fields)
           else (case n_amount f of
                   Amount_missing \<Rightarrow> (s, Inl Missing_fields)
                 | Amount_unparsable \<Rightarrow> (s, Inl Invalid_amount)
                 | Amount amount \<Rightarrow>
                     (case renew_rent_tx s f tid amount of
                        (w, Inl e) \<Rightarrow> (s, Inl e)
                      | (w, Inr m) \<Rightarrow> (w, Inr m)))))"

section \<open>assign_tenant (POST /properties/assign-tenant)\<close>

text \<open>The JSON body; \<open>None\<close> is an absent or null field.\<close>

record assign_form =
  a_tenant_id :: "nat option"
  a_property_id :: "nat option"
  a_unit_id :: "nat option"

text \<open>The body of the \<open>try\<close> block, for a tenant id and property id that are present.\<close>

definition assign_tenant_tx ::
  "db \<Rightarrow> nat \<Rightarrow> nat \<Rightarrow> nat option \<Rightarrow> db \<times> (error + message)" where
  "assign_tenant_tx s tenant_id property_id unit_id =
     (case find (\<lambda>t. t_id t = tenant_id) (tenants s) of
        None \<Rightarrow> (s, Inl Tenant_not_found)
      | Some tenant \<Rightarrow>
          (if truthy (t_property_id tenant) \<or> truthy (t_unit_id tenant)
           then (s, Inl Already_assigned)
           else if truthy unit_id then
             (case find (\<lambda>u. Some (u_id u) = unit_id) (property_units s) of
                None \<Rightarrow> (s, Inl Unit_not_found)
              | Some unit \<Rightarrow>
                  (if u_property_id unit \<noteq> property_id then (s, Inl Unit_mismatch)
                   else if u_status unit \<noteq> ''Vacant'' then (s, Inl Unit_not_available)
                   else
                     (let tenants' = map (\<lambda>r. if t_id r = tenant_id
                                 then r\<lparr>t_property_id := Some property_id, t_unit_id := unit_id\<rparr>
                                 else r) (tenants s);
                          units' = map (\<lambda>r. if Some (u_id r) = unit_id
                                 then r\<lparr>u_status := ''Occupied'', u_tenant_id := Some tenant_id\<rparr>
                                 else r) (property_units s);
                          total_units = length (filter (\<lambda>r. u_property_id r = property_id) units');
                          occupied_units = length (filter (\<lambda>r. u_property_id r = property_id
                                                       \<and> u_status r = ''Occupied'') units');
                          properties' = (if total_units \<noteq> 0 \<and> total_units = occupied_units
                                 then map (\<lambda>r. if p_id r = property_id
                                                then r\<lparr>p_status := ''Occupied''\<rparr> else r)
                                        (properties s)
                                 else properties s)
                      in (s\<lparr>tenants := tenants', property_units := units',
                             properties := properties'\<rparr>, Inr Tenant_assigned))))
           else
             (case find (\<lambda>p. p_id p = property_id) (properties s) of
                None \<Rightarrow> (s, Inl Property_not_found)
              | Some prop \<Rightarrow>
                  (if p_status prop \<noteq> ''Vacant'' then (s, Inl Property_not_available)
                   else
                     (let tenants' = map (\<lambda>r. if t_id r = tenant_id
                                 then r\<lparr>t_property_id := Some property_id, t_unit_id := None\<rparr>
                                 else r) (tenants s);
                          properties' = map (\<lambda>r. if p_id r = property_id
                                                  then r\<lparr>p_status := ''Occupied''\<rparr> else r)
                                          (properties s)
                      in (s\<lparr>tenants := tenants', properties := properties'\<rparr>,
                          Inr Tenant_assigned))))))"

text \<open>The route: \<open>unit_id = data.get('unit_id') or None\<close>, the missing-field check, the
  transaction.\<close>

definition assign_tenant :: "db \<Rightarrow> assign_form \<Rightarrow> db \<times> (error + message)" where
  "assign_tenant s f =
     (if \<not> truthy (a_tenant_id f) \<or> \<not> truthy (a_property_id f) then (s, Inl Missing_fields)
      else
        (case assign_tenant_tx s (the (a_tenant_id f)) (the (a_property_id f))
                (if truthy (a_unit_id f) then a_unit_id f else None) of
           (w, Inl e) \<Rightarrow> (s, Inl e)
         | (w, Inr m) \<Rightarrow> (w, Inr m)))"

section \<open>landlord_account_detail (GET /landlords/<id>/account-statement)\<close>

record statement_line =
  sl_date :: string
  sl_narration :: string
  sl_mode_of_payment :: string
  sl_credit :: rat
  sl_debit :: rat
  sl_source :: string
  sl_meta_id :: nat

record detailed_line =
  dl_sn :: nat
  dl_line :: statement_line
  dl_balance :: rat

text \<open>\<open>str.lower()\<close> on ASCII letters.\<close>

definition lower_char :: "char \<Rightarrow> char" where
  "lower_char c = (if CHR ''A'' \<le> c \<and> c \<le> CHR ''Z'' then char_of (of_char c + (32::nat)) else c)"

definition lower :: "string \<Rightarrow> string" where
  "lower = map lower_char"

text \<open>
  The payments query: \<open>payments p LEFT JOIN tenants t ON p.tenant_id = t.id LEFT JOIN properties
  prop ON p.property_id = prop.id WHERE prop.landlord_id = ?\<close>. A payment comes back once for
  every property row with its property id and that landlord, paired with its tenant's name when
  the tenant exists.
\<close>

definition landlord_payments :: "db \<Rightarrow> nat \<Rightarrow> (payment \<times> string option) list" where
  "landlord_payments s lid =
     concat (map (\<lambda>p. map (\<lambda>prop. (p, map_option t_full_name
                                          (find (\<lambda>t. t_id t = pay_tenant_id p) (tenants s))))
                        (filter (\<lambda>prop. p_id prop = pay_property_id p \<and> p_landlord_id prop = lid)
                           (properties s)))
                 (payments s))"

text \<open>\<open>landlord_transactions WHERE landlord_id = ?\<close>.\<close>

definition landlord_manual :: "db \<Rightarrow> nat \<Rightarrow> landlord_transaction list" where
  "landlord_manual s lid = filter (\<lambda>m. lt_landlord_id m = lid) (landlord_transactions s)"

text \<open>The two normalising loops.\<close>

definition payment_line :: "payment \<times> string option \<Rightarrow> statement_line" where
  "payment_line pt =
     (case pt of (p, tenant_name) \<Rightarrow>
        \<lparr>sl_date = pay_date p,
         sl_narration = (if pay_description p \<noteq> [] then pay_description p
                         else ''Payment from '' @
                              (case tenant_name of
                                 None \<Rightarrow> ''Unknown tenant''
                               | Some n \<Rightarrow> if n = [] then ''Unknown tenant'' else n)),
         sl_mode_of_payment = pay_method p,
         sl_credit = pay_amount p,
         sl_debit = 0,
         sl_source = ''payment'',
         sl_meta_id = pay_id p\<rparr>)"

definition manual_line :: "landlord_transaction \<Rightarrow> statement_line" where
  "manual_line m =
     \<lparr>sl_date = lt_date m,
      sl_narration = lt_narration m,
      sl_mode_of_payment = lt_method m,
      sl_credit = (if lower (lt_type m) = ''credit'' then lt_amount m else 0),
      sl_debit = (if lower (lt_type m) = ''credit'' then 0 else lt_amount m),
      sl_source = ''manual'',
      sl_meta_id = lt_id m\<rparr>"

text \<open>\<open>merged.sort(key=lambda x: x['date'] or '')\<close>: a stable sort on the date string.\<close>

definition merged :: "db \<Rightarrow> nat \<Rightarrow> statement_line list" where
  "merged s lid =
     sort_key sl_date (map payment_line (landlord_payments s lid) @
                       map manual_line (landlord_manual s lid))"

text \<open>The running-balance loop: \<open>balance\<close> and the counter of \<open>enumerate(merged, start=1)\<close> are
  the loop state; the result is \<open>detailed\<close> and the final \<open>balance\<close>. The step
  \<open>balance += credit - debit\<close> is a float subtraction followed by a float addition.\<close>

fun running :: "rat \<Rightarrow> nat \<Rightarrow> statement_line list \<Rightarrow> detailed_line list \<times> rat" where
  "running balance i [] = ([], balance)"
| "running balance i (tx # txs) =
     (let balance' = fadd balance (fsub (sl_credit tx) (sl_debit tx));
          rest = running balance' (Suc i) txs
      in (\<lparr>dl_sn = i, dl_line = tx, dl_balance = balance'\<rparr> # fst rest, snd rest))"

text \<open>The route: \<open>None\<close> when the landlord does not exist (the redirect), else the
  transactions and the balance handed to the template.\<close>

definition landlord_account_detail :: "db \<Rightarrow> nat \<Rightarrow> (detailed_line list \<times> rat) option" where
  "landlord_account_detail s lid =
     (case find (\<lambda>l. l_id l = lid) (landlords s) of
        None \<Rightarrow> None
      | Some l \<Rightarrow> Some (running 0 1 (merged s lid)))"

section \<open>dashboard: the general account balance\<close>

text \<open>One row per landlord: \<open>payments_total\<close>, \<open>manual_credits\<close>, \<open>manual_debits\<close>, each a SUM
  with \<open>COALESCE(..., 0.0)\<close>.\<close>

definition general_rows :: "db \<Rightarrow> (nat \<times> rat \<times> rat \<times> rat) list" where
  "general_rows s =
     map (\<lambda>l.
       (l_id l,
        sum_list (concat (map (\<lambda>p. map (\<lambda>pr. pay_amount p)
                                    (filter (\<lambda>pr. p_id pr = pay_property_id p
                                                   \<and> p_landlord_id pr = l_id l) (properties s)))
                              (payments s))),
        sum_list (map (\<lambda>lt. if lt_type lt = ''credit'' then lt_amount lt else 0)
                      (filter (\<lambda>lt. lt_landlord_id lt = l_id l) (landlord_transactions s))),
        sum_list (map (\<lambda>lt. if lt_type lt = ''debit'' then lt_amount lt else 0)
                      (filter (\<lambda>lt. lt_landlord_id lt = l_id l) (landlord_transactions s)))))
       (landlords s)"

text \<open>The loop \<open>general_balance += payments_total + manual_credits - manual_debits\<close>.\<close>

fun general_balance_loop :: "rat \<Rightarrow> (nat \<times> rat \<times> rat \<times> rat) list \<Rightarrow> rat" where
  "general_balance_loop general_balance [] = general_balance"
| "general_balance_loop general_balance ((lid, payments_total, manual_credits, manual_debits) # rows) =
     general_balance_loop (general_balance + (payments_total + manual_credits - manual_debits)) rows"

definition general_balance :: "db \<Rightarrow> rat" where
  "general_balance s = general_balance_loop 0 (general_rows s)"




section \<open>Example data\<close>

text \<open>One landlord with a flat at 1500 let to tenant 1, and a tenement (no price of its own)
  with two units, the second occupied; tenant 2 is unassigned.\<close>

definition ex_flat :: property where
  "ex_flat = \<lparr>p_id = 1, p_landlord_id = 1, p_price = Some 1500, p_status = ''Occupied''\<rparr>"

definition ex_tenement :: property where
  "ex_tenement = \<lparr>p_id = 2, p_landlord_id = 1, p_price = None, p_status = ''Vacant''\<rparr>"

definition ex_unit1 :: unit_row where
  "ex_unit1 = \<lparr>u_id = 1, u_property_id = 2, u_price = Some 800, u_status = ''Vacant'',
                u_tenant_id = None\<rparr>"

definition ex_unit2 :: unit_row where
  "ex_unit2 = \<lparr>u_id = 2, u_property_id = 2, u_price = Some 900, u_status = ''Occupied'',
                u_tenant_id = Some 3\<rparr>"

definition ex_tenant1 :: tenant where
  "ex_tenant1 = \<lparr>t_id = 1, t_full_name = ''Jane Doe'', t_property_id = Some 1, t_unit_id = None,
                  t_lease_start_date = ''2024-01-01'', t_lease_end_date = ''2024-12-31''\<rparr>"

definition ex_tenant2 :: tenant where
  "ex_tenant2 = \<lparr>t_id = 2, t_full_name = ''Sam Roe'', t_property_id = None, t_unit_id = None,
                  t_lease_start_date = [], t_lease_end_date = []\<rparr>"

definition ex_tenant3 :: tenant where
  "ex_tenant3 = \<lparr>t_id = 3, t_full_name = ''Ann Poe'', t_property_id = Some 2, t_unit_id = Some 2,
                  t_lease_start_date = ''2024-03-01'', t_lease_end_date = ''2025-02-28''\<rparr>"

definition ex_db :: db where
  "ex_db = \<lparr>landlords = [\<lparr>l_id = 1, l_full_name = ''John Smith''\<rparr>],
            properties = [ex_flat, ex_tenement],
            property_units = [ex_unit1, ex_unit2],
            tenants = [ex_tenant1, ex_tenant2, ex_tenant3],
            payments = [],
            landlord_transactions = []\<rparr>"

text \<open>A first payment of 1000 towards the 1500 (500 left open), and a first payment in full.\<close>

definition ex_partial_row :: payment where
  "ex_partial_row = \<lparr>pay_id = 1, pay_tenant_id = 1, pay_property_id = 1, pay_unit_id = None,
       pay_amount = 1000, pay_type = ''Partial'', pay_method = ''Cash'', pay_date = ''2024-01-05'',
       pay_balance_due = 500, pay_description = ''January'', pay_credit = Some 0,
       pay_debit = Some 0\<rparr>"

definition ex_full_row :: payment where
  "ex_full_row = \<lparr>pay_id = 1, pay_tenant_id = 1, pay_property_id = 1, pay_unit_id = None,
       pay_amount = 1500, pay_type = ''Full'', pay_method = ''Cash'', pay_date = ''2024-01-05'',
       pay_balance_due = 0, pay_description = ''January'', pay_credit = Some 1500,
       pay_debit = Some 0\<rparr>"

definition ex_db_partial :: db where
  "ex_db_partial = ex_db\<lparr>payments := [ex_partial_row]\<rparr>"

definition ex_db_paid :: db where
  "ex_db_paid = ex_db\<lparr>payments := [ex_full_row]\<rparr>"

definition ex_form :: "rat \<Rightarrow> payment_form" where
  "ex_form a = \<lparr>f_tenant_id = 1, f_amount = a, f_payment_method = ''Cash'',
                 f_payment_date = ''2024-02-01'', f_description = ''Rent''\<rparr>"

definition ex_renew_form :: "string \<Rightarrow> rat \<Rightarrow> renew_form" where
  "ex_renew_form hint a = \<lparr>n_tenant_id = Some 1, n_new_start_date = ''2025-01-01'',
       n_new_end_date = ''2025-12-31'', n_amount = Amount a, n_payment_method = ''Transfer'',
       n_payment_type = hint, n_payment_date = ''2025-01-02'', n_description = []\<rparr>"


text \<open>A request to put tenant 2 into a unit of the tenement.\<close>

definition ex_assign_form :: "nat \<Rightarrow> assign_form" where
  "ex_assign_form uid = \<lparr>a_tenant_id = Some 2, a_property_id = Some 2, a_unit_id = Some uid\<rparr>"

text \<open>The paid-up database after a renewal of 2000 on 2025-01-02: a credit and the fee debit,
  both dated the same day.\<close>

definition ex_credit_row :: landlord_transaction where
  "ex_credit_row = \<lparr>lt_id = 1, lt_landlord_id = 1, lt_date = ''2025-01-02'',
       lt_narration = ''Rent renewal - Jane Doe'', lt_type = ''credit'', lt_amount = 2000,
       lt_method = ''Transfer''\<rparr>"

definition ex_debit_row :: landlord_transaction where
  "ex_debit_row = \<lparr>lt_id = 2, lt_landlord_id = 1, lt_date = ''2025-01-02'',
       lt_narration = ''Management fee deduction'', lt_type = ''debit'', lt_amount = 200,
       lt_method = ''Automatic Deduction''\<rparr>"

definition ex_db_ledger :: db where
  "ex_db_ledger = ex_db_paid\<lparr>landlord_transactions := [ex_credit_row, ex_debit_row]\<rparr>"

text \<open>The paid-up database with the flat let at 100.46 (the float that this decimal reads
  as), and a matching payment form.\<close>

definition ex_price_cents :: rat where
  "ex_price_cents = double_round (5023 / 50)"

definition ex_db_cents :: db where
  "ex_db_cents =
     ex_db_paid\<lparr>properties := [ex_flat\<lparr>p_price := Some ex_price_cents\<rparr>, ex_tenement]\<rparr>"

text \<open>Three manual credits entered for landlord 1 on one day: 672.69, 4237.32 and 3819.11.\<close>

definition ex_manual :: "nat \<Rightarrow> rat \<Rightarrow> landlord_transaction" where
  "ex_manual i a = \<lparr>lt_id = i, lt_landlord_id = 1, lt_date = ''2025-03-01'',
       lt_narration = ''Deposit'', lt_type = ''credit'', lt_amount = double_round a,
       lt_method = ''Cash''\<rparr>"

definition ex_db_three :: db where
  "ex_db_three = ex_db\<lparr>landlord_transactions :=
       [ex_manual 1 (67269 / 100), ex_manual 2 (423732 / 100), ex_manual 3 (381911 / 100)]\<rparr>"

section \<open>Facts about the payment queries\<close>

lemma floor_rat_divide_numeral:
  "\<lfloor>(numeral a / numeral b :: rat)\<rfloor> = numeral a div numeral b"
proof -
  have "\<lfloor>(of_int (numeral a) / of_int (numeral b) :: rat)\<rfloor> = numeral a div numeral b"
    by (rule floor_divide_of_int_eq)
  then show ?thesis by simp
qed

lemma normalize_sig_step:
  "0 < n \<Longrightarrow> normalize_sig n m u =
     (if 2 ^ 53 \<le> m then normalize_sig (n - 1) (m / 2) (u * 2)
      else if m < 2 ^ 52 then normalize_sig (n - 1) (m * 2) (u / 2)
      else (m, u))"
  by (cases n) simp_all

lemmas double_eval = double_round_def normalize_sig_step round_half_even_def Let_def
  floor_rat_divide_numeral

lemma c010_value: "c010 = 3602879701896397 / 36028797018963968"
  by (simp add: c010_def double_eval)

lemma c090_value: "c090 = 8106479329266893 / 9007199254740992"
  by (simp add: c090_def double_eval)

lemma round_half_even_int: "round_half_even (of_int k) = k"
  by (simp add: round_half_even_def)

lemma normalize_sig_int:
  assumes "m \<in> \<int>" and "0 < m" and "m < 2 ^ 53"
  shows "fst (normalize_sig n m u) \<in> \<int> \<and>
         fst (normalize_sig n m u) * snd (normalize_sig n m u) = m * u"
  using assms
proof (induction n arbitrary: m u)
  case 0
  then show ?case by simp
next
  case (Suc n)
  show ?case
  proof (cases "m < 2 ^ 52")
    case True
    have z: "m * 2 \<in> \<int>" using Suc.prems(1) by simp
    have p: "0 < m * 2" using Suc.prems(2) by simp
    have b: "m * 2 < 2 ^ 53" using True by simp
    from Suc.IH [OF z p b, of "u / 2"] True Suc.prems(3) show ?thesis by simp
  next
    case False
    with Suc.prems show ?thesis by simp
  qed
qed

text \<open>A whole number below \<open>2^53\<close> in absolute value is a binary64 value: rounding keeps it.\<close>

lemma double_round_exact_int:
  assumes "x \<in> \<int>" and "\<bar>x\<bar> < 2 ^ 53"
  shows "double_round x = x"
proof (cases "x = 0")
  case True
  then show ?thesis by (simp add: double_round_def)
next
  case False
  have z: "\<bar>x\<bar> \<in> \<int>" using assms(1) by simp
  have p: "0 < \<bar>x\<bar>" using False by simp
  from normalize_sig_int [OF z p assms(2), of 2200 1]
  obtain k where k: "fst (normalize_sig 2200 \<bar>x\<bar> 1) = of_int k"
    and pr: "fst (normalize_sig 2200 \<bar>x\<bar> 1) * snd (normalize_sig 2200 \<bar>x\<bar> 1) = \<bar>x\<bar>"
    by (auto elim: Ints_cases)
  have "double_round x =
      sgn x * of_int (round_half_even (fst (normalize_sig 2200 \<bar>x\<bar> 1)))
        * snd (normalize_sig 2200 \<bar>x\<bar> 1)"
    using False by (simp add: double_round_def split: prod.splits)
  also have "\<dots> = sgn x * (fst (normalize_sig 2200 \<bar>x\<bar> 1) * snd (normalize_sig 2200 \<bar>x\<bar> 1))"
    unfolding k round_half_even_int by simp
  also have "\<dots> = sgn x * \<bar>x\<bar>" unfolding pr ..
  also have "\<dots> = x" by (simp add: sgn_mult_abs)
  finally show ?thesis .
qed

lemmas ex_defs = ex_db_def ex_db_partial_def ex_db_paid_def ex_flat_def ex_tenement_def
  ex_unit1_def ex_unit2_def ex_tenant1_def ex_tenant2_def ex_tenant3_def ex_partial_row_def
  ex_full_row_def ex_form_def ex_renew_form_def

lemma sum_list_positive_rows:
  fixes g :: "'a \<Rightarrow> rat"
  shows "0 \<le> sum_list (map g (filter (\<lambda>r. P r \<and> g r > 0) xs))"
  by (rule sum_list_nonneg) auto

lemma sum_list_positive_rows_zero:
  fixes g :: "'a \<Rightarrow> rat"
  shows "sum_list (map g (filter (\<lambda>r. P r \<and> g r > 0) xs)) = 0
           \<longleftrightarrow> filter (\<lambda>r. P r \<and> g r > 0) xs = []"
proof (induction xs)
  case Nil
  then show ?case by simp
next
  case (Cons x xs)
  show ?case using Cons sum_list_positive_rows [of g P xs] by auto
qed

lemma total_outstanding_nonneg: "0 \<le> total_outstanding s tid"
  unfolding total_outstanding_def by (rule sum_list_positive_rows)

lemma total_outstanding_zero_iff:
  "total_outstanding s tid = 0 \<longleftrightarrow>
     filter (\<lambda>r. pay_tenant_id r = tid \<and> pay_balance_due r > 0) (payments s) = []"
  unfolding total_outstanding_def by (rule sum_list_positive_rows_zero)

lemma completed_cycles_iff:
  "completed_cycles s tid \<ge> 1 \<longleftrightarrow>
     (\<exists>r \<in> set (payments s). pay_tenant_id r = tid \<and> pay_type r = ''Full'' \<and> pay_balance_due r = 0)"
proof -
  have "completed_cycles s tid \<ge> 1 \<longleftrightarrow>
      filter (\<lambda>r. pay_tenant_id r = tid \<and> pay_type r = ''Full'' \<and> pay_balance_due r = 0)
        (payments s) \<noteq> []"
    unfolding completed_cycles_def by (simp add: Suc_le_eq)
  then show ?thesis by (auto simp add: filter_empty_conv)
qed

lemma fold_max_upper: "x \<in> set xs \<Longrightarrow> x \<le> fold max xs (m::nat)"
proof (induction xs arbitrary: m)
  case Nil
  then show ?case by simp
next
  case (Cons y ys)
  have mono: "m \<le> fold max ys m" for m :: nat
    by (induction ys arbitrary: m) (auto intro: order_trans [OF max.cobounded2])
  show ?case
  proof (cases "x = y")
    case True
    have "y \<le> max y m" by simp
    also have "\<dots> \<le> fold max ys (max y m)" by (rule mono)
    finally show ?thesis using True by simp
  next
    case False
    with Cons show ?thesis by simp
  qed
qed

lemma next_id_fresh: "x \<in> set ids \<Longrightarrow> x < next_id ids"
  unfolding next_id_def using fold_max_upper [of x ids 0] by simp

lemma next_payment_id_fresh:
  "r \<in> set rows \<Longrightarrow> pay_id r \<noteq> next_id (map pay_id rows)"
  using next_id_fresh [of "pay_id r" "map pay_id rows"] by auto

section \<open>The stored state after an accepted payment\<close>

lemma last_clear_old_partials:
  "pay_id row = nid \<Longrightarrow> last (clear_old_partials tid nid (xs @ [row])) = row"
  by (simp add: clear_old_partials_def)

lemma length_clear_old_partials:
  "length (clear_old_partials tid nid xs) = length xs"
  by (simp add: clear_old_partials_def)

lemma add_payment_accept:
  assumes "tenant_row s (f_tenant_id f) = Some (t, p, u)"
      and "rent_amount_of t p u = Some rent_due"
      and "classify (total_outstanding s (f_tenant_id f)) rent_due (f_amount f) = Inr (ty, bal)"
  shows "\<exists>m. snd (add_payment s f) = Inr m"
    and "length (payments (fst (add_payment s f))) = Suc (length (payments s))"
    and "pay_type (last (payments (fst (add_payment s f)))) = ty"
    and "pay_balance_due (last (payments (fst (add_payment s f)))) = bal"
    and "pay_tenant_id (last (payments (fst (add_payment s f)))) = f_tenant_id f"
    and "pay_amount (last (payments (fst (add_payment s f)))) = f_amount f"
    and "pay_credit (last (payments (fst (add_payment s f)))) =
           Some (fst (credit_debit (completed_cycles s (f_tenant_id f) \<ge> 1)
                        (total_outstanding s (f_tenant_id f)) bal (f_amount f)))"
    and "pay_debit (last (payments (fst (add_payment s f)))) =
           Some (fst (snd (credit_debit (completed_cycles s (f_tenant_id f) \<ge> 1)
                        (total_outstanding s (f_tenant_id f)) bal (f_amount f))))"
  using assms
  by (simp_all add: add_payment_def add_payment_tx_def Let_def last_clear_old_partials
        length_clear_old_partials split: prod.splits)

lemma add_payment_reject:
  assumes "tenant_row s (f_tenant_id f) = Some (t, p, u)"
      and "rent_amount_of t p u = Some rent_due"
      and "classify (total_outstanding s (f_tenant_id f)) rent_due (f_amount f) = Inl e"
  shows "add_payment s f = (s, Inl e)"
  using assms by (simp add: add_payment_def add_payment_tx_def Let_def)

lemma add_payment_accepted_classify:
  assumes "tenant_row s (f_tenant_id f) = Some (t, p, u)"
      and "rent_amount_of t p u = Some rent_due"
      and "snd (add_payment s f) = Inr m"
  shows "\<exists>ty bal. classify (total_outstanding s (f_tenant_id f)) rent_due (f_amount f) = Inr (ty, bal)"
proof (cases "classify (total_outstanding s (f_tenant_id f)) rent_due (f_amount f)")
  case (Inl e)
  from add_payment_reject [OF assms(1,2) Inl] assms(3) show ?thesis by simp
next
  case (Inr b)
  then show ?thesis by (cases b) simp
qed

section \<open>Claims about add_payment\<close>



lemma ex_tenant_row_partial:
  "tenant_row ex_db_partial (f_tenant_id (ex_form a)) = Some (ex_tenant1, ex_flat, None)"
  by (simp add: tenant_row_def ex_defs)

lemma ex_rent: "rent_amount_of ex_tenant1 ex_flat None = Some 1500"
  by (simp add: rent_amount_of_def ex_defs)

lemma ex_outstanding_partial: "total_outstanding ex_db_partial (f_tenant_id (ex_form a)) = 500"
  by (simp add: total_outstanding_def ex_defs)


lemma classify_balance_nonneg:
  "classify out rent a = Inr (ty, bal) \<Longrightarrow> 0 \<le> bal"
  by (auto simp: classify_def split: if_splits)

text \<open>
  Claim C2, as amended. For an accepted add_payment call, the new row's balance due is never
  negative and: when it is 0, the tenant had a prior payment of type Full with balance due 0,
  and nothing was outstanding entering the call, the stored debit is the float product
  \<open>amount * 0.10\<close> and the stored credit is the float difference \<open>amount - debit\<close>, each
  rounded to the nearest binary64 value; in every other case with balance due 0 the credit is
  the amount and the debit 0; when the balance due is positive both are 0.
\<close>

theorem add_payment_fee_split:
  assumes "tenant_row s (f_tenant_id f) = Some (t, p, u)"
      and "rent_amount_of t p u = Some rent_due"
      and "snd (add_payment s f) = Inr m"
  shows "0 \<le> pay_balance_due (last (payments (fst (add_payment s f))))
       \<and> (pay_balance_due (last (payments (fst (add_payment s f)))) = 0
            \<and> (\<exists>r \<in> set (payments s). pay_tenant_id r = f_tenant_id f \<and> pay_type r = ''Full''
                   \<and> pay_balance_due r = 0)
            \<and> total_outstanding s (f_tenant_id f) = 0
          \<longrightarrow> pay_debit (last (payments (fst (add_payment s f)))) = Some (fmul (f_amount f) c010)
            \<and> pay_credit (last (payments (fst (add_payment s f)))) =
                Some (fsub (f_amount f) (fmul (f_amount f) c010)))
       \<and> (pay_balance_due (last (payments (fst (add_payment s f)))) = 0
            \<and> \<not> ((\<exists>r \<in> set (payments s). pay_tenant_id r = f_tenant_id f \<and> pay_type r = ''Full''
                      \<and> pay_balance_due r = 0)
                   \<and> total_outstanding s (f_tenant_id f) = 0)
          \<longrightarrow> pay_credit (last (payments (fst (add_payment s f)))) = Some (f_amount f)
            \<and> pay_debit (last (payments (fst (add_payment s f)))) = Some 0)
       \<and> (0 < pay_balance_due (last (payments (fst (add_payment s f))))
          \<longrightarrow> pay_credit (last (payments (fst (add_payment s f)))) = Some 0
            \<and> pay_debit (last (payments (fst (add_payment s f)))) = Some 0)"
proof -
  from add_payment_accepted_classify [OF assms] obtain ty bal where
    c: "classify (total_outstanding s (f_tenant_id f)) rent_due (f_amount f) = Inr (ty, bal)"
    by blast
  note acc = add_payment_accept [OF assms(1,2) c]
  have bal: "pay_balance_due (last (payments (fst (add_payment s f)))) = bal" by (rule acc(4))
  have ren: "(completed_cycles s (f_tenant_id f) \<ge> 1) =
      (\<exists>r \<in> set (payments s). pay_tenant_id r = f_tenant_id f \<and> pay_type r = ''Full''
                   \<and> pay_balance_due r = 0)"
    by (rule completed_cycles_iff)
  have nn: "0 \<le> bal" by (rule classify_balance_nonneg [OF c])
  show ?thesis
    unfolding acc(7) acc(8) bal ren using nn
    by (auto simp add: credit_debit_def Let_def)
qed

lemma fee_of_1500: "fmul 1500 c010 = 150" "fsub 1500 150 = 1350"
  unfolding c010_value by (simp_all add: fmul_def fsub_def double_eval)

theorem add_payment_fee_split_witness:
  "tenant_row ex_db_paid (f_tenant_id (ex_form 1500)) = Some (ex_tenant1, ex_flat, None)
   \<and> rent_amount_of ex_tenant1 ex_flat None = Some 1500
   \<and> snd (add_payment ex_db_paid (ex_form 1500)) = Inr (Renewal_payment 1350 150)
   \<and> pay_credit (last (payments (fst (add_payment ex_db_paid (ex_form 1500))))) = Some 1350
   \<and> pay_debit (last (payments (fst (add_payment ex_db_paid (ex_form 1500))))) = Some 150"
proof -
  have r: "tenant_row ex_db_paid (f_tenant_id (ex_form 1500)) = Some (ex_tenant1, ex_flat, None)"
    by (simp add: tenant_row_def ex_defs)
  have out: "total_outstanding ex_db_paid (f_tenant_id (ex_form 1500)) = 0"
    by (simp add: total_outstanding_def ex_defs)
  have cyc: "completed_cycles ex_db_paid (f_tenant_id (ex_form 1500)) = 1"
    by (simp add: completed_cycles_def ex_defs)
  have am: "f_amount (ex_form 1500) = 1500" by (simp add: ex_form_def)
  have c: "classify (total_outstanding ex_db_paid (f_tenant_id (ex_form 1500))) 1500
             (f_amount (ex_form 1500)) = Inr (''Full'', 0)"
    unfolding out am by (simp add: classify_def)
  note acc = add_payment_accept [OF r ex_rent c]
  have m: "snd (add_payment ex_db_paid (ex_form 1500)) = Inr (Renewal_payment 1350 150)"
    unfolding add_payment_def add_payment_tx_def r out cyc am
    by (simp add: ex_rent classify_def credit_debit_def Let_def fee_of_1500)
  have e: "\<exists>r \<in> set (payments ex_db_paid). pay_tenant_id r = f_tenant_id (ex_form 1500)
             \<and> pay_type r = ''Full'' \<and> pay_balance_due r = 0"
    by (simp add: ex_defs)
  have b: "pay_balance_due (last (payments (fst (add_payment ex_db_paid (ex_form 1500))))) = 0"
    by (rule acc(4))
  from add_payment_fee_split [OF r ex_rent m] b e out
  have "pay_debit (last (payments (fst (add_payment ex_db_paid (ex_form 1500))))) =
          Some (fmul (f_amount (ex_form 1500)) c010)"
    and "pay_credit (last (payments (fst (add_payment ex_db_paid (ex_form 1500))))) =
          Some (fsub (f_amount (ex_form 1500)) (fmul (f_amount (ex_form 1500)) c010))"
    by blast+
  then have d: "pay_debit (last (payments (fst (add_payment ex_db_paid (ex_form 1500))))) = Some 150"
    and k: "pay_credit (last (payments (fst (add_payment ex_db_paid (ex_form 1500))))) = Some 1350"
    unfolding am fee_of_1500 by simp_all
  show ?thesis by (intro conjI r ex_rent m k d)
qed

text \<open>
  Claim C2 as first stated (credit nine tenths of the amount, debit one tenth, credit plus
  debit equal to the amount exactly) fails on floats: with the flat let at 100.46 and a renewal
  payment of 100.46, the stored debit is 10.046 and the stored credit 90.41399999999999 (as
  floats); their sum is not the amount, neither exactly nor as a float sum, and the credit
  is neither nine tenths of the amount nor the float product \<open>amount * 0.90\<close>.
\<close>

theorem add_payment_fee_split_counterexample:
  "tenant_row ex_db_cents (f_tenant_id (ex_form ex_price_cents))
     = Some (ex_tenant1, ex_flat\<lparr>p_price := Some ex_price_cents\<rparr>, None)
   \<and> ex_full_row \<in> set (payments ex_db_cents) \<and> pay_tenant_id ex_full_row = 1
   \<and> pay_type ex_full_row = ''Full'' \<and> pay_balance_due ex_full_row = 0
   \<and> total_outstanding ex_db_cents (f_tenant_id (ex_form ex_price_cents)) = 0
   \<and> f_amount (ex_form ex_price_cents) = 7069244040088125 / 70368744177664
   \<and> pay_balance_due (last (payments (fst (add_payment ex_db_cents (ex_form ex_price_cents))))) = 0
   \<and> pay_debit (last (payments (fst (add_payment ex_db_cents (ex_form ex_price_cents)))))
       = Some (1413848808017625 / 140737488355328)
   \<and> pay_credit (last (payments (fst (add_payment ex_db_cents (ex_form ex_price_cents)))))
       = Some (397644977254957 / 4398046511104)
   \<and> the (pay_credit (last (payments (fst (add_payment ex_db_cents (ex_form ex_price_cents))))))
       + the (pay_debit (last (payments (fst (add_payment ex_db_cents (ex_form ex_price_cents))))))
       \<noteq> f_amount (ex_form ex_price_cents)
   \<and> fadd (the (pay_credit (last (payments (fst (add_payment ex_db_cents (ex_form ex_price_cents)))))))
           (the (pay_debit (last (payments (fst (add_payment ex_db_cents (ex_form ex_price_cents)))))))
       \<noteq> f_amount (ex_form ex_price_cents)
   \<and> the (pay_credit (last (payments (fst (add_payment ex_db_cents (ex_form ex_price_cents))))))
       \<noteq> f_amount (ex_form ex_price_cents) * (9 / 10)
   \<and> the (pay_credit (last (payments (fst (add_payment ex_db_cents (ex_form ex_price_cents))))))
       \<noteq> fmul (f_amount (ex_form ex_price_cents)) c090"
proof -
  have pv: "ex_price_cents = 7069244040088125 / 70368744177664"
    by (simp add: ex_price_cents_def double_eval)
  have am: "f_amount (ex_form ex_price_cents) = 7069244040088125 / 70368744177664"
    by (simp add: ex_form_def pv)
  have r: "tenant_row ex_db_cents (f_tenant_id (ex_form ex_price_cents))
     = Some (ex_tenant1, ex_flat\<lparr>p_price := Some ex_price_cents\<rparr>, None)"
    by (simp add: tenant_row_def ex_db_cents_def ex_defs)
  have rent: "rent_amount_of ex_tenant1 (ex_flat\<lparr>p_price := Some ex_price_cents\<rparr>) None
                = Some (7069244040088125 / 70368744177664)"
    by (simp add: rent_amount_of_def ex_defs pv)
  have row: "ex_full_row \<in> set (payments ex_db_cents)" "pay_tenant_id ex_full_row = 1"
      "pay_type ex_full_row = ''Full''" "pay_balance_due ex_full_row = 0"
    by (simp_all add: ex_db_cents_def ex_defs)
  have out: "total_outstanding ex_db_cents (f_tenant_id (ex_form ex_price_cents)) = 0"
    by (simp add: total_outstanding_def ex_db_cents_def ex_defs)
  have cyc: "(completed_cycles ex_db_cents (f_tenant_id (ex_form ex_price_cents)) \<ge> 1) = True"
    by (simp add: completed_cycles_def ex_db_cents_def ex_defs)
  have c: "classify (total_outstanding ex_db_cents (f_tenant_id (ex_form ex_price_cents)))
             (7069244040088125 / 70368744177664) (f_amount (ex_form ex_price_cents))
           = Inr (''Full'', 0)"
    unfolding out am by (simp add: classify_def)
  note acc = add_payment_accept [OF r rent c]
  have d0: "fmul (7069244040088125 / 70368744177664) c010 = 1413848808017625 / 140737488355328"
    unfolding c010_value by (simp add: fmul_def double_eval)
  have c0: "fsub (7069244040088125 / 70368744177664) (1413848808017625 / 140737488355328)
              = 397644977254957 / 4398046511104"
    by (simp add: fsub_def double_eval)
  have s0: "fadd (397644977254957 / 4398046511104) (1413848808017625 / 140737488355328)
              = 1767311010022031 / 17592186044416"
    by (simp add: fadd_def double_eval)
  have n0: "fmul (7069244040088125 / 70368744177664) c090 = 6362319636079313 / 70368744177664"
    unfolding c090_value by (simp add: fmul_def double_eval)
  have debit: "pay_debit (last (payments (fst (add_payment ex_db_cents (ex_form ex_price_cents)))))
       = Some (1413848808017625 / 140737488355328)"
    unfolding acc(8) out cyc am by (simp add: credit_debit_def Let_def d0)
  have credit: "pay_credit (last (payments (fst (add_payment ex_db_cents (ex_form ex_price_cents)))))
       = Some (397644977254957 / 4398046511104)"
    unfolding acc(7) out cyc am by (simp add: credit_debit_def Let_def d0 c0)
  have bal: "pay_balance_due (last (payments (fst (add_payment ex_db_cents (ex_form ex_price_cents))))) = 0"
    by (rule acc(4))
  have x1: "the (pay_credit (last (payments (fst (add_payment ex_db_cents (ex_form ex_price_cents))))))
       + the (pay_debit (last (payments (fst (add_payment ex_db_cents (ex_form ex_price_cents))))))
       \<noteq> f_amount (ex_form ex_price_cents)"
    unfolding credit debit am by simp
  have x2: "fadd (the (pay_credit (last (payments (fst (add_payment ex_db_cents (ex_form ex_price_cents)))))))
           (the (pay_debit (last (payments (fst (add_payment ex_db_cents (ex_form ex_price_cents)))))))
       \<noteq> f_amount (ex_form ex_price_cents)"
    unfolding credit debit am option.sel s0 by simp
  have x3: "the (pay_credit (last (payments (fst (add_payment ex_db_cents (ex_form ex_price_cents))))))
       \<noteq> f_amount (ex_form ex_price_cents) * (9 / 10)"
    unfolding credit am by simp
  have x4: "the (pay_credit (last (payments (fst (add_payment ex_db_cents (ex_form ex_price_cents))))))
       \<noteq> fmul (f_amount (ex_form ex_price_cents)) c090"
    unfolding credit am option.sel n0 by simp
  show ?thesis by (intro conjI r row out am bal debit credit x1 x2 x3 x4)
qed

lemma clear_old_partials_append_new:
  assumes "\<forall>r \<in> set rows. pay_id r \<noteq> nid" and "pay_id row = nid"
  shows "clear_old_partials tid nid (rows @ [row]) =
           map (\<lambda>r. if pay_tenant_id r = tid \<and> 0 < pay_balance_due r
                     then r\<lparr>pay_balance_due := 0, pay_type := ''Full''\<rparr> else r) rows @ [row]"
  using assms by (simp add: clear_old_partials_def)

lemma no_open_after_clear:
  "filter (\<lambda>r. pay_tenant_id r = tid \<and> 0 < pay_balance_due r)
     (map (\<lambda>r. if pay_tenant_id r = tid \<and> 0 < pay_balance_due r
               then r\<lparr>pay_balance_due := 0, pay_type := ''Full''\<rparr> else r) rows) = []"
  by (induction rows) auto

lemma add_payment_accept_payments:
  assumes "tenant_row s (f_tenant_id f) = Some (t, p, u)"
      and "rent_amount_of t p u = Some rent_due"
      and "classify (total_outstanding s (f_tenant_id f)) rent_due (f_amount f) = Inr (ty, bal)"
  shows "\<exists>row. pay_balance_due row = bal \<and>
           payments (fst (add_payment s f)) =
             (if 0 < total_outstanding s (f_tenant_id f) \<and> bal = 0
              then map (\<lambda>r. if pay_tenant_id r = f_tenant_id f \<and> 0 < pay_balance_due r
                             then r\<lparr>pay_balance_due := 0, pay_type := ''Full''\<rparr> else r)
                     (payments s) @ [row]
              else payments s @ [row])"
proof -
  have fresh: "\<forall>r \<in> set (payments s). pay_id r \<noteq> next_id (map pay_id (payments s))"
    by (simp add: next_payment_id_fresh)
  show ?thesis
  proof (cases "0 < total_outstanding s (f_tenant_id f) \<and> bal = 0")
    case True
    with assms show ?thesis
      by (simp add: add_payment_def add_payment_tx_def Let_def
            clear_old_partials_append_new [OF fresh] split: prod.splits)
  next
    case False
    with assms show ?thesis
      by (auto simp add: add_payment_def add_payment_tx_def Let_def split: prod.splits)
  qed
qed

text \<open>
  Claim C5. When an accepted add_payment call leaves its new row with balance due 0: if a
  balance was outstanding entering the call, every earlier row of that tenant with a positive
  balance due is rewritten to balance due 0 and type Full, the other earlier rows are kept as
  they were, and the new row is appended; and in every case (also when nothing was
  outstanding) the tenant has no row with a positive balance due afterwards, hence at most one.
\<close>

theorem add_payment_clears_open_rows:
  assumes "tenant_row s (f_tenant_id f) = Some (t, p, u)"
      and "rent_amount_of t p u = Some rent_due"
      and "snd (add_payment s f) = Inr m"
      and "pay_balance_due (last (payments (fst (add_payment s f)))) = 0"
  shows "(0 < total_outstanding s (f_tenant_id f) \<longrightarrow>
            payments (fst (add_payment s f)) =
              map (\<lambda>r. if pay_tenant_id r = f_tenant_id f \<and> 0 < pay_balance_due r
                        then r\<lparr>pay_balance_due := 0, pay_type := ''Full''\<rparr> else r)
                (payments s) @ [last (payments (fst (add_payment s f)))])
       \<and> filter (\<lambda>r. pay_tenant_id r = f_tenant_id f \<and> 0 < pay_balance_due r)
            (payments (fst (add_payment s f))) = []
       \<and> length (filter (\<lambda>r. pay_tenant_id r = f_tenant_id f \<and> 0 < pay_balance_due r)
            (payments (fst (add_payment s f)))) \<le> 1"
proof -
  from add_payment_accepted_classify [OF assms(1,2,3)] obtain ty bal where
    c: "classify (total_outstanding s (f_tenant_id f)) rent_due (f_amount f) = Inr (ty, bal)"
    by blast
  have "pay_balance_due (last (payments (fst (add_payment s f)))) = bal"
    by (rule add_payment_accept(4) [OF assms(1,2) c])
  with assms(4) have bal: "bal = 0" by simp
  from add_payment_accept_payments [OF assms(1,2) c] obtain row where
    row: "pay_balance_due row = 0"
    and pays: "payments (fst (add_payment s f)) =
             (if 0 < total_outstanding s (f_tenant_id f)
              then map (\<lambda>r. if pay_tenant_id r = f_tenant_id f \<and> 0 < pay_balance_due r
                             then r\<lparr>pay_balance_due := 0, pay_type := ''Full''\<rparr> else r)
                     (payments s) @ [row]
              else payments s @ [row])"
    unfolding bal by auto
  have nonneg: "0 \<le> total_outstanding s (f_tenant_id f)" by (rule total_outstanding_nonneg)
  show ?thesis
  proof (cases "0 < total_outstanding s (f_tenant_id f)")
    case True
    then show ?thesis
      unfolding pays using row by (simp add: no_open_after_clear)
  next
    case False
    with nonneg have "total_outstanding s (f_tenant_id f) = 0" by simp
    then have "filter (\<lambda>r. pay_tenant_id r = f_tenant_id f \<and> 0 < pay_balance_due r)
                 (payments s) = []"
      by (simp add: total_outstanding_zero_iff)
    with False show ?thesis
      unfolding pays using row by simp
  qed
qed

theorem add_payment_clears_open_rows_witness:
  "tenant_row ex_db_partial (f_tenant_id (ex_form 500)) = Some (ex_tenant1, ex_flat, None)
   \<and> rent_amount_of ex_tenant1 ex_flat None = Some 1500
   \<and> snd (add_payment ex_db_partial (ex_form 500)) = Inr (Payment_completed 500)
   \<and> pay_balance_due (last (payments (fst (add_payment ex_db_partial (ex_form 500))))) = 0
   \<and> 0 < total_outstanding ex_db_partial (f_tenant_id (ex_form 500))
   \<and> payments (fst (add_payment ex_db_partial (ex_form 500))) =
       [ex_partial_row\<lparr>pay_balance_due := 0, pay_type := ''Full''\<rparr>,
        last (payments (fst (add_payment ex_db_partial (ex_form 500))))]"
proof -
  note r = ex_tenant_row_partial [of 500]
  note out = ex_outstanding_partial [of 500]
  have cyc: "completed_cycles ex_db_partial (f_tenant_id (ex_form 500)) = 0"
    by (simp add: completed_cycles_def ex_defs)
  have m: "snd (add_payment ex_db_partial (ex_form 500)) = Inr (Payment_completed 500)"
    unfolding add_payment_def add_payment_tx_def r out cyc
    by (simp add: ex_rent classify_def credit_debit_def Let_def ex_form_def)
  have c: "classify (total_outstanding ex_db_partial (f_tenant_id (ex_form 500))) 1500
             (f_amount (ex_form 500)) = Inr (''Full'', 0)"
    unfolding out by (simp add: classify_def ex_form_def)
  have b: "pay_balance_due (last (payments (fst (add_payment ex_db_partial (ex_form 500))))) = 0"
    by (rule add_payment_accept(4) [OF r ex_rent c])
  have pays: "payments ex_db_partial = [ex_partial_row]" by (simp add: ex_defs)
  have f1: "f_tenant_id (ex_form 500) = 1" by (simp add: ex_form_def)
  from add_payment_clears_open_rows [OF r ex_rent m b] r ex_rent m b out
  show ?thesis by (simp add: pays f1 ex_partial_row_def)
qed

lemma add_payment_tx_error_no_write:
  "snd (add_payment_tx s f) = Inl e \<Longrightarrow> fst (add_payment_tx s f) = s"
  by (auto simp add: add_payment_tx_def Let_def
        split: option.splits prod.splits sum.splits)

lemma add_payment_error_iff:
  "snd (add_payment s f) = Inl e \<longleftrightarrow> snd (add_payment_tx s f) = Inl e"
  by (cases "add_payment_tx s f") (auto simp add: add_payment_def split: sum.splits)

text \<open>
  Claim C6. Whenever add_payment answers with an error, the stored database is the one from
  before the call, and so is the connection's view at the point of the error: no write has
  happened before the error is found. The tenant query returning no row gives the error
  Tenant_not_found; an amount above a positive outstanding balance gives Exceeds_outstanding;
  with nothing outstanding an amount above the rent gives Exceeds_rent; each with the database
  unchanged.
\<close>

theorem add_payment_failure_writes_nothing:
  "(\<forall>e. snd (add_payment s f) = Inl e \<longrightarrow>
        fst (add_payment s f) = s \<and> fst (add_payment_tx s f) = s)
   \<and> (tenant_row s (f_tenant_id f) = None \<longrightarrow> add_payment s f = (s, Inl Tenant_not_found))
   \<and> (\<forall>t p u rent_due.
        tenant_row s (f_tenant_id f) = Some (t, p, u) \<and> rent_amount_of t p u = Some rent_due
        \<and> 0 < total_outstanding s (f_tenant_id f)
        \<and> total_outstanding s (f_tenant_id f) < f_amount f
        \<longrightarrow> add_payment s f = (s, Inl Exceeds_outstanding))
   \<and> (\<forall>t p u rent_due.
        tenant_row s (f_tenant_id f) = Some (t, p, u) \<and> rent_amount_of t p u = Some rent_due
        \<and> total_outstanding s (f_tenant_id f) = 0 \<and> rent_due < f_amount f
        \<longrightarrow> add_payment s f = (s, Inl Exceeds_rent))"
proof (intro conjI allI impI)
  fix e assume e: "snd (add_payment s f) = Inl e"
  then show "fst (add_payment s f) = s"
    by (cases "add_payment_tx s f") (auto simp add: add_payment_def split: sum.splits)
  from e have "snd (add_payment_tx s f) = Inl e" by (simp add: add_payment_error_iff)
  then show "fst (add_payment_tx s f) = s" by (rule add_payment_tx_error_no_write)
next
  assume "tenant_row s (f_tenant_id f) = None"
  then show "add_payment s f = (s, Inl Tenant_not_found)"
    by (simp add: add_payment_def add_payment_tx_def)
next
  fix t p u rent_due
  assume h: "tenant_row s (f_tenant_id f) = Some (t, p, u) \<and> rent_amount_of t p u = Some rent_due
        \<and> 0 < total_outstanding s (f_tenant_id f)
        \<and> total_outstanding s (f_tenant_id f) < f_amount f"
  then have "classify (total_outstanding s (f_tenant_id f)) rent_due (f_amount f)
               = Inl Exceeds_outstanding"
    by (simp add: classify_def)
  with h show "add_payment s f = (s, Inl Exceeds_outstanding)"
    by (simp add: add_payment_reject)
next
  fix t p u rent_due
  assume h: "tenant_row s (f_tenant_id f) = Some (t, p, u) \<and> rent_amount_of t p u = Some rent_due
        \<and> total_outstanding s (f_tenant_id f) = 0 \<and> rent_due < f_amount f"
  then have "classify (total_outstanding s (f_tenant_id f)) rent_due (f_amount f)
               = Inl Exceeds_rent"
    by (simp add: classify_def)
  with h show "add_payment s f = (s, Inl Exceeds_rent)"
    by (simp add: add_payment_reject)
qed

theorem add_payment_failure_writes_nothing_witness:
  "total_outstanding ex_db_partial (f_tenant_id (ex_form 2000)) = 500
   \<and> f_amount (ex_form 2000) = 2000
   \<and> add_payment ex_db_partial (ex_form 2000) = (ex_db_partial, Inl Exceeds_outstanding)
   \<and> fst (add_payment_tx ex_db_partial (ex_form 2000)) = ex_db_partial
   \<and> payments (fst (add_payment ex_db_partial (ex_form 2000))) = [ex_partial_row]"
proof -
  note r = ex_tenant_row_partial [of 2000]
  note out = ex_outstanding_partial [of 2000]
  have am: "f_amount (ex_form 2000) = 2000" by (simp add: ex_form_def)
  note inst = add_payment_failure_writes_nothing [of ex_db_partial "ex_form 2000"]
  from inst r ex_rent out am
  have a: "add_payment ex_db_partial (ex_form 2000) = (ex_db_partial, Inl Exceeds_outstanding)"
    by simp
  with inst have "fst (add_payment_tx ex_db_partial (ex_form 2000)) = ex_db_partial"
    by simp
  with a out am show ?thesis by (simp add: ex_db_partial_def)
qed






section \<open>Claims about renew_rent\<close>

lemma renew_rent_valid_form:
  assumes "n_tenant_id f = Some tid" and "n_new_start_date f \<noteq> []" and "n_new_end_date f \<noteq> []"
      and "n_payment_method f \<noteq> []" and "n_amount f = Amount a"
  shows "renew_rent s f =
           (case renew_rent_tx s f tid a of (w, Inl e) \<Rightarrow> (s, Inl e) | (w, Inr m) \<Rightarrow> (w, Inr m))"
  using assms by (simp add: renew_rent_def)

lemma renew_rent_tx_ledger:
  assumes "renew_tenant_row s tid = Some (t, p, l, u)"
      and "renew_rent_amount t p u = Some rent_amount"
  shows "\<exists>m. snd (renew_rent_tx s f tid a) = Inr m"
    and "completed_cycles s tid \<ge> 1 \<Longrightarrow>
           \<exists>c d. landlord_transactions (fst (renew_rent_tx s f tid a)) =
                    landlord_transactions s @ [c, d]
                \<and> lt_landlord_id c = p_landlord_id p \<and> lt_type c = ''credit'' \<and> lt_amount c = a
                \<and> lt_landlord_id d = p_landlord_id p \<and> lt_type d = ''debit''
                \<and> lt_amount d = a * (1 / 10)"
    and "completed_cycles s tid \<ge> 1 \<Longrightarrow>
           snd (renew_rent_tx s f tid a) =
             Inr (if n_payment_type f = ''Partial''
                  then Renewal_partial a (a - a * (1 / 10)) (a * (1 / 10))
                         (renew_balance_due (n_payment_type f) rent_amount a)
                  else Renewal_full a (a - a * (1 / 10)) (a * (1 / 10)))"
    and "\<not> completed_cycles s tid \<ge> 1 \<Longrightarrow>
           \<exists>c. landlord_transactions (fst (renew_rent_tx s f tid a)) =
                    landlord_transactions s @ [c]
                \<and> lt_landlord_id c = p_landlord_id p \<and> lt_type c = ''credit'' \<and> lt_amount c = a"
    and "length (payments (fst (renew_rent_tx s f tid a))) = Suc (length (payments s))"
    and "pay_type (last (payments (fst (renew_rent_tx s f tid a)))) = n_payment_type f"
    and "pay_amount (last (payments (fst (renew_rent_tx s f tid a)))) = a"
    and "pay_balance_due (last (payments (fst (renew_rent_tx s f tid a)))) =
           renew_balance_due (n_payment_type f) rent_amount a"
  using assms by (simp_all add: renew_rent_tx_def Let_def)



lemma ex_renew_rent_amount: "renew_rent_amount ex_tenant1 ex_flat None = Some 1500"
  by (simp add: renew_rent_amount_def truthy_def ex_defs)


text \<open>
  Claim C4. The payment row stored by renew_rent carries the payment type from the form. Its
  balance due is \<open>rent_amount - amount\<close> when that type is Partial, without a lower bound of 0:
  for the flat at 1500, a Partial renewal with amount 2000 stores a balance due of -500, where
  the claim gives \<open>max 0 (1500 - 2000) = 0\<close>.
\<close>

theorem renew_rent_negative_balance:
  "snd (renew_rent ex_db (ex_renew_form ''Partial'' 2000)) = Inr (First_partial 2000 (- 500))
   \<and> pay_type (last (payments (fst (renew_rent ex_db (ex_renew_form ''Partial'' 2000)))))
       = ''Partial''
   \<and> pay_amount (last (payments (fst (renew_rent ex_db (ex_renew_form ''Partial'' 2000)))))
       = 2000
   \<and> pay_balance_due (last (payments (fst (renew_rent ex_db (ex_renew_form ''Partial'' 2000)))))
       = - 500
   \<and> pay_balance_due (last (payments (fst (renew_rent ex_db (ex_renew_form ''Partial'' 2000)))))
       \<noteq> max 0 (1500 - 2000)"
proof -
  have row: "renew_tenant_row ex_db 1
     = Some (ex_tenant1, ex_flat, \<lparr>l_id = 1, l_full_name = ''John Smith''\<rparr>, None)"
    by (simp add: renew_tenant_row_def tenant_row_def ex_defs)
  have cyc: "completed_cycles ex_db 1 = 0" by (simp add: completed_cycles_def ex_defs)
  have f: "n_tenant_id (ex_renew_form ''Partial'' 2000) = Some 1"
      "n_new_start_date (ex_renew_form ''Partial'' 2000) \<noteq> []"
      "n_new_end_date (ex_renew_form ''Partial'' 2000) \<noteq> []"
      "n_payment_method (ex_renew_form ''Partial'' 2000) \<noteq> []"
      "n_amount (ex_renew_form ''Partial'' 2000) = Amount 2000"
    by (simp_all add: ex_renew_form_def)
  have ty: "n_payment_type (ex_renew_form ''Partial'' 2000) = ''Partial''"
    by (simp add: ex_renew_form_def)
  note tx = renew_rent_tx_ledger [OF row ex_renew_rent_amount, of "ex_renew_form ''Partial'' 2000" 2000]
  have m: "snd (renew_rent_tx ex_db (ex_renew_form ''Partial'' 2000) 1 2000)
             = Inr (First_partial 2000 (- 500))"
    unfolding renew_rent_tx_def row cyc
    by (simp add: ex_renew_rent_amount Let_def ty renew_balance_due_def)
  have eq: "renew_rent ex_db (ex_renew_form ''Partial'' 2000)
              = renew_rent_tx ex_db (ex_renew_form ''Partial'' 2000) 1 2000"
    unfolding renew_rent_valid_form [OF f] using m
    by (cases "renew_rent_tx ex_db (ex_renew_form ''Partial'' 2000) 1 2000") simp
  show ?thesis
    unfolding eq tx(6) tx(7) tx(8) m ty by (simp add: renew_balance_due_def)
qed

section \<open>Claims about assign_tenant\<close>

lemma count_all_iff:
  "length (filter P xs) = length (filter (\<lambda>r. P r \<and> Q r) xs) \<longleftrightarrow> (\<forall>r \<in> set xs. P r \<longrightarrow> Q r)"
proof (induction xs)
  case Nil
  then show ?case by simp
next
  case (Cons x xs)
  have le: "length (filter (\<lambda>r. P r \<and> Q r) xs) \<le> length (filter P xs)"
    by (induction xs) auto
  show ?case using Cons le by auto
qed

lemma find_in_set: "find P xs = Some x \<Longrightarrow> x \<in> set xs \<and> P x"
  by (auto simp add: find_Some_iff)

lemma assign_tenant_tx_error_no_write:
  "snd (assign_tenant_tx s tid pid uo) = Inl e \<Longrightarrow> fst (assign_tenant_tx s tid pid uo) = s"
  by (auto simp add: assign_tenant_tx_def Let_def split: option.splits if_splits)

lemma assign_tenant_error_unchanged:
  "snd (assign_tenant s f) = Inl e \<Longrightarrow> fst (assign_tenant s f) = s"
  by (auto simp add: assign_tenant_def split: if_splits prod.splits sum.splits)

lemma assign_tenant_present:
  assumes "a_tenant_id f = Some tid" and "tid \<noteq> 0" and "a_property_id f = Some pid" and "pid \<noteq> 0"
  shows "assign_tenant s f =
           (case assign_tenant_tx s tid pid (if truthy (a_unit_id f) then a_unit_id f else None) of
              (w, Inl e) \<Rightarrow> (s, Inl e) | (w, Inr m) \<Rightarrow> (w, Inr m))"
  using assms by (simp add: assign_tenant_def truthy_def)

lemma assign_tenant_eq_tx:
  assumes "a_tenant_id f = Some tid" and "tid \<noteq> 0" and "a_property_id f = Some pid" and "pid \<noteq> 0"
  shows "assign_tenant s f =
           assign_tenant_tx s tid pid (if truthy (a_unit_id f) then a_unit_id f else None)"
proof (cases "assign_tenant_tx s tid pid (if truthy (a_unit_id f) then a_unit_id f else None)")
  case (Pair w r)
  show ?thesis
  proof (cases r)
    case (Inl e)
    with Pair assign_tenant_tx_error_no_write
      [of s tid pid "if truthy (a_unit_id f) then a_unit_id f else None" e]
    show ?thesis by (simp add: assign_tenant_present [OF assms])
  next
    case (Inr m)
    with Pair show ?thesis by (simp add: assign_tenant_present [OF assms])
  qed
qed

lemma assign_unit_success:
  assumes "find (\<lambda>t. t_id t = tid) (tenants s) = Some tn"
      and "\<not> truthy (t_property_id tn)" and "\<not> truthy (t_unit_id tn)"
      and "uid \<noteq> 0"
      and "find (\<lambda>u. u_id u = uid) (property_units s) = Some un"
      and "u_property_id un = pid" and "u_status un = ''Vacant''"
  shows "assign_tenant_tx s tid pid (Some uid) =
     (s\<lparr>tenants := map (\<lambda>r. if t_id r = tid
                                then r\<lparr>t_property_id := Some pid, t_unit_id := Some uid\<rparr> else r)
                       (tenants s),
         property_units := map (\<lambda>r. if u_id r = uid
                                then r\<lparr>u_status := ''Occupied'', u_tenant_id := Some tid\<rparr> else r)
                       (property_units s),
         properties :=
           (if \<forall>r \<in> set (map (\<lambda>r. if u_id r = uid
                                then r\<lparr>u_status := ''Occupied'', u_tenant_id := Some tid\<rparr> else r)
                       (property_units s)). u_property_id r = pid \<longrightarrow> u_status r = ''Occupied''
            then map (\<lambda>r. if p_id r = pid then r\<lparr>p_status := ''Occupied''\<rparr> else r) (properties s)
            else properties s)\<rparr>,
      Inr Tenant_assigned)"
proof -
  let ?U = "map (\<lambda>r. if u_id r = uid
                      then r\<lparr>u_status := ''Occupied'', u_tenant_id := Some tid\<rparr> else r)
              (property_units s)"
  from find_in_set [OF assms(5)] have un: "un \<in> set (property_units s)" "u_id un = uid"
    by simp_all
  have mem: "un\<lparr>u_status := ''Occupied'', u_tenant_id := Some tid\<rparr> \<in> set ?U"
    using un by force
  have "u_property_id (un\<lparr>u_status := ''Occupied'', u_tenant_id := Some tid\<rparr>) = pid"
    using assms(6) by simp
  with mem have "\<exists>r \<in> set ?U. u_property_id r = pid" by blast
  then have "filter (\<lambda>r. u_property_id r = pid) ?U \<noteq> []"
    unfolding filter_empty_conv by blast
  then have nz: "length (filter (\<lambda>r. u_property_id r = pid) ?U) \<noteq> 0"
    by (simp only: length_0_conv not_False_eq_True)
  have cnt: "(length (filter (\<lambda>r. u_property_id r = pid) ?U) =
              length (filter (\<lambda>r. u_property_id r = pid \<and> u_status r = ''Occupied'') ?U))
             = (\<forall>r \<in> set ?U. u_property_id r = pid \<longrightarrow> u_status r = ''Occupied'')"
    by (rule count_all_iff)
  have tu: "truthy (Some uid)" using assms(4) by (simp add: truthy_def)
  have na: "\<not> (truthy (t_property_id tn) \<or> truthy (t_unit_id tn))"
    using assms(2,3) by simp
  have fu: "find (\<lambda>u. Some (u_id u) = Some uid) (property_units s) = Some un"
    using assms(5) by simp
  have c1: "\<not> u_property_id un \<noteq> pid" using assms(6) by simp
  have c2: "\<not> u_status un \<noteq> ''Vacant''" using assms(7) by simp
  have cond: "(length (filter (\<lambda>r. u_property_id r = pid) ?U) \<noteq> 0 \<and>
               length (filter (\<lambda>r. u_property_id r = pid) ?U) =
               length (filter (\<lambda>r. u_property_id r = pid \<and> u_status r = ''Occupied'') ?U))
             = (\<forall>r \<in> set ?U. u_property_id r = pid \<longrightarrow> u_status r = ''Occupied'')"
    using nz cnt by blast
  have inj: "(\<lambda>r. if Some (u_id r) = Some uid
                      then r\<lparr>u_status := ''Occupied'', u_tenant_id := Some tid\<rparr> else r)
             = (\<lambda>r. if u_id r = uid
                      then r\<lparr>u_status := ''Occupied'', u_tenant_id := Some tid\<rparr> else r)"
    by simp
  show ?thesis
    unfolding assign_tenant_tx_def Let_def
    by (simp only: assms(1) option.case na tu fu c1 c2 if_False if_True inj cond)
qed


lemma assign_property_success:
  assumes "find (\<lambda>t. t_id t = tid) (tenants s) = Some tn"
      and "\<not> truthy (t_property_id tn)" and "\<not> truthy (t_unit_id tn)"
      and "find (\<lambda>p. p_id p = pid) (properties s) = Some pr"
      and "p_status pr = ''Vacant''"
  shows "assign_tenant_tx s tid pid None =
     (s\<lparr>tenants := map (\<lambda>r. if t_id r = tid
                                then r\<lparr>t_property_id := Some pid, t_unit_id := None\<rparr> else r)
                       (tenants s),
         properties := map (\<lambda>r. if p_id r = pid then r\<lparr>p_status := ''Occupied''\<rparr> else r)
                         (properties s)\<rparr>,
      Inr Tenant_assigned)"
proof -
  have tu: "\<not> truthy None" by (simp add: truthy_def)
  have na: "\<not> (truthy (t_property_id tn) \<or> truthy (t_unit_id tn))"
    using assms(2,3) by simp
  have c: "\<not> p_status pr \<noteq> ''Vacant''" using assms(5) by simp
  show ?thesis
    unfolding assign_tenant_tx_def Let_def
    by (simp only: assms(1,4) option.case na tu c if_False if_True)
qed

lemma assign_rejections:
  assumes "find (\<lambda>t. t_id t = tid) (tenants s) = Some tn"
  shows "truthy (t_property_id tn) \<or> truthy (t_unit_id tn) \<Longrightarrow>
           assign_tenant_tx s tid pid uo = (s, Inl Already_assigned)"
    and "\<not> truthy (t_property_id tn) \<Longrightarrow> \<not> truthy (t_unit_id tn) \<Longrightarrow> uid \<noteq> 0 \<Longrightarrow>
         find (\<lambda>u. u_id u = uid) (property_units s) = Some un \<Longrightarrow> u_property_id un \<noteq> pid \<Longrightarrow>
           assign_tenant_tx s tid pid (Some uid) = (s, Inl Unit_mismatch)"
    and "\<not> truthy (t_property_id tn) \<Longrightarrow> \<not> truthy (t_unit_id tn) \<Longrightarrow> uid \<noteq> 0 \<Longrightarrow>
         find (\<lambda>u. u_id u = uid) (property_units s) = Some un \<Longrightarrow> u_property_id un = pid \<Longrightarrow>
         u_status un \<noteq> ''Vacant'' \<Longrightarrow>
           assign_tenant_tx s tid pid (Some uid) = (s, Inl Unit_not_available)"
    and "\<not> truthy (t_property_id tn) \<Longrightarrow> \<not> truthy (t_unit_id tn) \<Longrightarrow>
         find (\<lambda>p. p_id p = pid) (properties s) = Some pr \<Longrightarrow> p_status pr \<noteq> ''Vacant'' \<Longrightarrow>
           assign_tenant_tx s tid pid None = (s, Inl Property_not_available)"
  using assms by (simp_all add: assign_tenant_tx_def truthy_def)


lemma assign_unit_success_fields:
  assumes "find (\<lambda>t. t_id t = tid) (tenants s) = Some tn"
      and "\<not> truthy (t_property_id tn)" and "\<not> truthy (t_unit_id tn)"
      and "uid \<noteq> 0"
      and "find (\<lambda>u. u_id u = uid) (property_units s) = Some un"
      and "u_property_id un = pid" and "u_status un = ''Vacant''"
  shows "snd (assign_tenant_tx s tid pid (Some uid)) = Inr Tenant_assigned"
    and "tenants (fst (assign_tenant_tx s tid pid (Some uid))) =
           map (\<lambda>r. if t_id r = tid
                     then r\<lparr>t_property_id := Some pid, t_unit_id := Some uid\<rparr> else r) (tenants s)"
    and "property_units (fst (assign_tenant_tx s tid pid (Some uid))) =
           map (\<lambda>r. if u_id r = uid
                     then r\<lparr>u_status := ''Occupied'', u_tenant_id := Some tid\<rparr> else r)
             (property_units s)"
    and "properties (fst (assign_tenant_tx s tid pid (Some uid))) =
           (if \<forall>r \<in> set (property_units (fst (assign_tenant_tx s tid pid (Some uid)))).
                 u_property_id r = pid \<longrightarrow> u_status r = ''Occupied''
            then map (\<lambda>r. if p_id r = pid then r\<lparr>p_status := ''Occupied''\<rparr> else r) (properties s)
            else properties s)"
proof -
  define T where "T = map (\<lambda>r. if t_id r = tid
                     then r\<lparr>t_property_id := Some pid, t_unit_id := Some uid\<rparr> else r) (tenants s)"
  define U where "U = map (\<lambda>r. if u_id r = uid
                     then r\<lparr>u_status := ''Occupied'', u_tenant_id := Some tid\<rparr> else r)
             (property_units s)"
  define P where "P = (if \<forall>r \<in> set U. u_property_id r = pid \<longrightarrow> u_status r = ''Occupied''
            then map (\<lambda>r. if p_id r = pid then r\<lparr>p_status := ''Occupied''\<rparr> else r) (properties s)
            else properties s)"
  have st: "assign_tenant_tx s tid pid (Some uid) =
              (s\<lparr>tenants := T, property_units := U, properties := P\<rparr>, Inr Tenant_assigned)"
    unfolding T_def U_def P_def by (rule assign_unit_success [OF assms])
  show "snd (assign_tenant_tx s tid pid (Some uid)) = Inr Tenant_assigned"
    by (simp only: st snd_conv)
  show "tenants (fst (assign_tenant_tx s tid pid (Some uid))) =
           map (\<lambda>r. if t_id r = tid
                     then r\<lparr>t_property_id := Some pid, t_unit_id := Some uid\<rparr> else r) (tenants s)"
    unfolding st T_def [symmetric] by simp
  show pu: "property_units (fst (assign_tenant_tx s tid pid (Some uid))) =
           map (\<lambda>r. if u_id r = uid
                     then r\<lparr>u_status := ''Occupied'', u_tenant_id := Some tid\<rparr> else r)
             (property_units s)"
    unfolding st U_def [symmetric] by simp
  have "properties (fst (assign_tenant_tx s tid pid (Some uid))) = P"
    unfolding st by simp
  then show "properties (fst (assign_tenant_tx s tid pid (Some uid))) =
           (if \<forall>r \<in> set (property_units (fst (assign_tenant_tx s tid pid (Some uid)))).
                 u_property_id r = pid \<longrightarrow> u_status r = ''Occupied''
            then map (\<lambda>r. if p_id r = pid then r\<lparr>p_status := ''Occupied''\<rparr> else r) (properties s)
            else properties s)"
    unfolding pu U_def [symmetric] P_def .
qed

lemma assign_property_success_fields:
  assumes "find (\<lambda>t. t_id t = tid) (tenants s) = Some tn"
      and "\<not> truthy (t_property_id tn)" and "\<not> truthy (t_unit_id tn)"
      and "find (\<lambda>p. p_id p = pid) (properties s) = Some pr"
      and "p_status pr = ''Vacant''"
  shows "snd (assign_tenant_tx s tid pid None) = Inr Tenant_assigned"
    and "tenants (fst (assign_tenant_tx s tid pid None)) =
           map (\<lambda>r. if t_id r = tid
                     then r\<lparr>t_property_id := Some pid, t_unit_id := None\<rparr> else r) (tenants s)"
    and "properties (fst (assign_tenant_tx s tid pid None)) =
           map (\<lambda>r. if p_id r = pid then r\<lparr>p_status := ''Occupied''\<rparr> else r) (properties s)"
  unfolding assign_property_success [OF assms] by simp_all


lemma units_after_map:
  "\<forall>r \<in> set (map (\<lambda>r. if u_id r = uid
                     then r\<lparr>u_status := ''Occupied'', u_tenant_id := Some tid\<rparr> else r) xs).
      u_id r = uid \<longrightarrow> u_status r = ''Occupied'' \<and> u_tenant_id r = Some tid"
proof (intro ballI impI)
  fix r
  assume mem: "r \<in> set (map (\<lambda>r. if u_id r = uid
                     then r\<lparr>u_status := ''Occupied'', u_tenant_id := Some tid\<rparr> else r) xs)"
    and id: "u_id r = uid"
  from mem have "r \<in> (\<lambda>r. if u_id r = uid
                     then r\<lparr>u_status := ''Occupied'', u_tenant_id := Some tid\<rparr> else r) ` set xs"
    by (simp only: set_map)
  then obtain x where
    x: "r = (if u_id x = uid then x\<lparr>u_status := ''Occupied'', u_tenant_id := Some tid\<rparr> else x)"
    by (rule imageE)
  show "u_status r = ''Occupied'' \<and> u_tenant_id r = Some tid"
  proof (cases "u_id x = uid")
    case True
    with x have "r = x\<lparr>u_status := ''Occupied'', u_tenant_id := Some tid\<rparr>" by simp
    then show ?thesis by simp
  next
    case False
    with x have "r = x" by simp
    with False id show ?thesis by simp
  qed
qed

lemma tenants_after_map:
  "\<forall>r \<in> set (map (\<lambda>r. if t_id r = tid
                     then r\<lparr>t_property_id := Some pid, t_unit_id := uo\<rparr> else r) xs).
      t_id r = tid \<longrightarrow> t_property_id r = Some pid \<and> t_unit_id r = uo"
proof (intro ballI impI)
  fix r
  assume mem: "r \<in> set (map (\<lambda>r. if t_id r = tid
                     then r\<lparr>t_property_id := Some pid, t_unit_id := uo\<rparr> else r) xs)"
    and id: "t_id r = tid"
  from mem have "r \<in> (\<lambda>r. if t_id r = tid
                     then r\<lparr>t_property_id := Some pid, t_unit_id := uo\<rparr> else r) ` set xs"
    by (simp only: set_map)
  then obtain x where
    x: "r = (if t_id x = tid then x\<lparr>t_property_id := Some pid, t_unit_id := uo\<rparr> else x)"
    by (rule imageE)
  show "t_property_id r = Some pid \<and> t_unit_id r = uo"
  proof (cases "t_id x = tid")
    case True
    with x have "r = x\<lparr>t_property_id := Some pid, t_unit_id := uo\<rparr>" by simp
    then show ?thesis by simp
  next
    case False
    with x have "r = x" by simp
    with False id show ?thesis by simp
  qed
qed

lemma unit_row_after_map:
  assumes "x \<in> set xs" and "u_id x = uid"
  shows "\<exists>r \<in> set (map (\<lambda>r. if u_id r = uid
                     then r\<lparr>u_status := ''Occupied'', u_tenant_id := Some tid\<rparr> else r) xs).
           u_id r = uid \<and> u_status r = ''Occupied'' \<and> u_tenant_id r = Some tid"
proof (rule bexI)
  have fx: "(if u_id x = uid then x\<lparr>u_status := ''Occupied'', u_tenant_id := Some tid\<rparr> else x)
              = x\<lparr>u_status := ''Occupied'', u_tenant_id := Some tid\<rparr>"
    using assms(2) by (rule if_P)
  from assms(1) have "(if u_id x = uid
                       then x\<lparr>u_status := ''Occupied'', u_tenant_id := Some tid\<rparr> else x)
      \<in> (\<lambda>r. if u_id r = uid
               then r\<lparr>u_status := ''Occupied'', u_tenant_id := Some tid\<rparr> else r) ` set xs"
    by (rule imageI)
  then show "x\<lparr>u_status := ''Occupied'', u_tenant_id := Some tid\<rparr>
      \<in> set (map (\<lambda>r. if u_id r = uid
                    then r\<lparr>u_status := ''Occupied'', u_tenant_id := Some tid\<rparr> else r) xs)"
    unfolding fx by (simp only: set_map)
  show "u_id (x\<lparr>u_status := ''Occupied'', u_tenant_id := Some tid\<rparr>) = uid
      \<and> u_status (x\<lparr>u_status := ''Occupied'', u_tenant_id := Some tid\<rparr>) = ''Occupied''
      \<and> u_tenant_id (x\<lparr>u_status := ''Occupied'', u_tenant_id := Some tid\<rparr>) = Some tid"
    using assms(2) by simp
qed

lemma tenant_row_after_map:
  assumes "x \<in> set xs" and "t_id x = tid"
  shows "\<exists>r \<in> set (map (\<lambda>r. if t_id r = tid
                     then r\<lparr>t_property_id := Some pid, t_unit_id := uo\<rparr> else r) xs).
           t_id r = tid \<and> t_property_id r = Some pid \<and> t_unit_id r = uo"
proof (rule bexI)
  have fx: "(if t_id x = tid then x\<lparr>t_property_id := Some pid, t_unit_id := uo\<rparr> else x)
              = x\<lparr>t_property_id := Some pid, t_unit_id := uo\<rparr>"
    using assms(2) by (rule if_P)
  from assms(1) have "(if t_id x = tid
                       then x\<lparr>t_property_id := Some pid, t_unit_id := uo\<rparr> else x)
      \<in> (\<lambda>r. if t_id r = tid
               then r\<lparr>t_property_id := Some pid, t_unit_id := uo\<rparr> else r) ` set xs"
    by (rule imageI)
  then show "x\<lparr>t_property_id := Some pid, t_unit_id := uo\<rparr>
      \<in> set (map (\<lambda>r. if t_id r = tid
                    then r\<lparr>t_property_id := Some pid, t_unit_id := uo\<rparr> else r) xs)"
    unfolding fx by (simp only: set_map)
  show "t_id (x\<lparr>t_property_id := Some pid, t_unit_id := uo\<rparr>) = tid
      \<and> t_property_id (x\<lparr>t_property_id := Some pid, t_unit_id := uo\<rparr>) = Some pid
      \<and> t_unit_id (x\<lparr>t_property_id := Some pid, t_unit_id := uo\<rparr>) = uo"
    using assms(2) by simp
qed

lemma property_row_after_map:
  assumes "x \<in> set xs" and "p_id x = pid"
  shows "\<exists>r \<in> set (map (\<lambda>r. if p_id r = pid then r\<lparr>p_status := ''Occupied''\<rparr> else r) xs).
           p_id r = pid \<and> p_status r = ''Occupied''"
proof (rule bexI)
  have fx: "(if p_id x = pid then x\<lparr>p_status := ''Occupied''\<rparr> else x)
              = x\<lparr>p_status := ''Occupied''\<rparr>"
    using assms(2) by (rule if_P)
  from assms(1) have "(if p_id x = pid then x\<lparr>p_status := ''Occupied''\<rparr> else x)
      \<in> (\<lambda>r. if p_id r = pid then r\<lparr>p_status := ''Occupied''\<rparr> else r) ` set xs"
    by (rule imageI)
  then show "x\<lparr>p_status := ''Occupied''\<rparr>
      \<in> set (map (\<lambda>r. if p_id r = pid then r\<lparr>p_status := ''Occupied''\<rparr> else r) xs)"
    unfolding fx by (simp only: set_map)
  show "p_id (x\<lparr>p_status := ''Occupied''\<rparr>) = pid
      \<and> p_status (x\<lparr>p_status := ''Occupied''\<rparr>) = ''Occupied''"
    using assms(2) by simp
qed

text \<open>
  Claim C7. For an assign_tenant call with tenant id and property id present and the tenant
  found: a tenant who already has a property or a unit is rejected; for a unit assignment,
  a unit of another property is rejected and a unit of the given property that is not Vacant
  is rejected; for a property assignment, a property that is not Vacant is rejected; every
  error answer leaves the stored database unchanged, and no write precedes it. A successful
  unit assignment stores exactly this: the tenant's row points to property and unit, the
  unit's row is Occupied and holds the tenant, the parent property's status is set to
  Occupied if all units of that property are then Occupied and is left as it was otherwise,
  and nothing else changes; the unit's row and the tenant's row are present afterwards. A
  successful property assignment stores exactly this: the tenant's row points to the
  property with no unit, the property's row is Occupied, and nothing else changes.
\<close>

theorem assign_tenant_rules:
  assumes "a_tenant_id f = Some tid" and "tid \<noteq> 0"
      and "a_property_id f = Some pid" and "pid \<noteq> 0"
      and "find (\<lambda>t. t_id t = tid) (tenants s) = Some tn"
  shows "(truthy (t_property_id tn) \<or> truthy (t_unit_id tn) \<longrightarrow>
            assign_tenant s f = (s, Inl Already_assigned))
       \<and> (\<forall>uid un.
            \<not> truthy (t_property_id tn) \<and> \<not> truthy (t_unit_id tn)
            \<and> a_unit_id f = Some uid \<and> uid \<noteq> 0
            \<and> find (\<lambda>u. u_id u = uid) (property_units s) = Some un \<longrightarrow>
              (u_property_id un \<noteq> pid \<longrightarrow> assign_tenant s f = (s, Inl Unit_mismatch))
            \<and> (u_property_id un = pid \<and> u_status un \<noteq> ''Vacant'' \<longrightarrow>
                 assign_tenant s f = (s, Inl Unit_not_available))
            \<and> (u_property_id un = pid \<and> u_status un = ''Vacant'' \<longrightarrow>
                 assign_tenant s f =
                   (s\<lparr>tenants := map (\<lambda>r. if t_id r = tid
                                  then r\<lparr>t_property_id := Some pid, t_unit_id := Some uid\<rparr>
                                  else r) (tenants s),
                      property_units := map (\<lambda>r. if u_id r = uid
                                  then r\<lparr>u_status := ''Occupied'', u_tenant_id := Some tid\<rparr>
                                  else r) (property_units s),
                      properties :=
                        (if \<forall>r \<in> set (map (\<lambda>r. if u_id r = uid
                                  then r\<lparr>u_status := ''Occupied'', u_tenant_id := Some tid\<rparr>
                                  else r) (property_units s)).
                              u_property_id r = pid \<longrightarrow> u_status r = ''Occupied''
                         then map (\<lambda>r. if p_id r = pid then r\<lparr>p_status := ''Occupied''\<rparr> else r)
                                (properties s)
                         else properties s)\<rparr>,
                    Inr Tenant_assigned)
               \<and> (\<exists>r \<in> set (property_units (fst (assign_tenant s f))).
                     u_id r = uid \<and> u_status r = ''Occupied'' \<and> u_tenant_id r = Some tid)
               \<and> (\<exists>r \<in> set (tenants (fst (assign_tenant s f))).
                     t_id r = tid \<and> t_property_id r = Some pid \<and> t_unit_id r = Some uid)
               \<and> snd (assign_tenant s f) = Inr Tenant_assigned
               \<and> (\<forall>r \<in> set (property_units (fst (assign_tenant s f))).
                     u_id r = uid \<longrightarrow> u_status r = ''Occupied'' \<and> u_tenant_id r = Some tid)
               \<and> (\<forall>r \<in> set (tenants (fst (assign_tenant s f))).
                     t_id r = tid \<longrightarrow> t_property_id r = Some pid \<and> t_unit_id r = Some uid)
               \<and> properties (fst (assign_tenant s f)) =
                   (if \<forall>r \<in> set (property_units (fst (assign_tenant s f))).
                         u_property_id r = pid \<longrightarrow> u_status r = ''Occupied''
                    then map (\<lambda>r. if p_id r = pid then r\<lparr>p_status := ''Occupied''\<rparr> else r)
                           (properties s)
                    else properties s)))
       \<and> (\<forall>pr.
            \<not> truthy (t_property_id tn) \<and> \<not> truthy (t_unit_id tn)
            \<and> \<not> truthy (a_unit_id f)
            \<and> find (\<lambda>p. p_id p = pid) (properties s) = Some pr \<longrightarrow>
              (p_status pr \<noteq> ''Vacant'' \<longrightarrow> assign_tenant s f = (s, Inl Property_not_available))
            \<and> (p_status pr = ''Vacant'' \<longrightarrow>
                 assign_tenant s f =
                   (s\<lparr>tenants := map (\<lambda>r. if t_id r = tid
                                  then r\<lparr>t_property_id := Some pid, t_unit_id := None\<rparr>
                                  else r) (tenants s),
                      properties := map (\<lambda>r. if p_id r = pid
                                  then r\<lparr>p_status := ''Occupied''\<rparr> else r) (properties s)\<rparr>,
                    Inr Tenant_assigned)
               \<and> (\<exists>r \<in> set (properties (fst (assign_tenant s f))).
                     p_id r = pid \<and> p_status r = ''Occupied'')
               \<and> (\<exists>r \<in> set (tenants (fst (assign_tenant s f))).
                     t_id r = tid \<and> t_property_id r = Some pid \<and> t_unit_id r = None)
               \<and> snd (assign_tenant s f) = Inr Tenant_assigned
               \<and> (\<forall>r \<in> set (tenants (fst (assign_tenant s f))).
                     t_id r = tid \<longrightarrow> t_property_id r = Some pid \<and> t_unit_id r = None)
               \<and> properties (fst (assign_tenant s f)) =
                   map (\<lambda>r. if p_id r = pid then r\<lparr>p_status := ''Occupied''\<rparr> else r)
                     (properties s)))
       \<and> (\<forall>e. snd (assign_tenant s f) = Inl e \<longrightarrow>
            fst (assign_tenant s f) = s
          \<and> fst (assign_tenant_tx s tid pid
                   (if truthy (a_unit_id f) then a_unit_id f else None)) = s)"
proof (intro conjI allI impI)
  note eq = assign_tenant_eq_tx [OF assms(1-4), of s]
  {
    assume "truthy (t_property_id tn) \<or> truthy (t_unit_id tn)"
    then show "assign_tenant s f = (s, Inl Already_assigned)"
      unfolding eq by (rule assign_rejections(1) [OF assms(5)])
  }
  {
    fix e assume e: "snd (assign_tenant s f) = Inl e"
    then show "fst (assign_tenant s f) = s" by (rule assign_tenant_error_unchanged)
    from e show "fst (assign_tenant_tx s tid pid
                   (if truthy (a_unit_id f) then a_unit_id f else None)) = s"
      unfolding eq by (rule assign_tenant_tx_error_no_write)
  }
  {
    fix uid un
    assume h: "\<not> truthy (t_property_id tn) \<and> \<not> truthy (t_unit_id tn)
            \<and> a_unit_id f = Some uid \<and> uid \<noteq> 0
            \<and> find (\<lambda>u. u_id u = uid) (property_units s) = Some un"
    note n1 = h [THEN conjunct1]
    note n2 = h [THEN conjunct2, THEN conjunct1]
    note au = h [THEN conjunct2, THEN conjunct2, THEN conjunct1]
    note nz = h [THEN conjunct2, THEN conjunct2, THEN conjunct2, THEN conjunct1]
    note fu = h [THEN conjunct2, THEN conjunct2, THEN conjunct2, THEN conjunct2]
    have arg: "(if truthy (a_unit_id f) then a_unit_id f else None) = Some uid"
      using au nz by (simp add: truthy_def)
    note eq' = eq [unfolded arg]
    {
      assume "u_property_id un \<noteq> pid"
      then show "assign_tenant s f = (s, Inl Unit_mismatch)"
        unfolding eq' by (rule assign_rejections(2) [OF assms(5) n1 n2 nz fu])
    }
    {
      assume v: "u_property_id un = pid \<and> u_status un \<noteq> ''Vacant''"
      show "assign_tenant s f = (s, Inl Unit_not_available)"
        unfolding eq'
        by (rule assign_rejections(3) [OF assms(5) n1 n2 nz fu v [THEN conjunct1]
              v [THEN conjunct2]])
    }
    {
      assume v: "u_property_id un = pid \<and> u_status un = ''Vacant''"
      note fl = assign_unit_success_fields [OF assms(5) n1 n2 nz fu v [THEN conjunct1]
                  v [THEN conjunct2]]
      show "assign_tenant s f =
              (s\<lparr>tenants := map (\<lambda>r. if t_id r = tid
                             then r\<lparr>t_property_id := Some pid, t_unit_id := Some uid\<rparr>
                             else r) (tenants s),
                 property_units := map (\<lambda>r. if u_id r = uid
                             then r\<lparr>u_status := ''Occupied'', u_tenant_id := Some tid\<rparr>
                             else r) (property_units s),
                 properties :=
                   (if \<forall>r \<in> set (map (\<lambda>r. if u_id r = uid
                             then r\<lparr>u_status := ''Occupied'', u_tenant_id := Some tid\<rparr>
                             else r) (property_units s)).
                         u_property_id r = pid \<longrightarrow> u_status r = ''Occupied''
                    then map (\<lambda>r. if p_id r = pid then r\<lparr>p_status := ''Occupied''\<rparr> else r)
                           (properties s)
                    else properties s)\<rparr>,
               Inr Tenant_assigned)"
        unfolding eq'
        by (rule assign_unit_success [OF assms(5) n1 n2 nz fu v [THEN conjunct1]
              v [THEN conjunct2]])
      show "\<exists>r \<in> set (property_units (fst (assign_tenant s f))).
              u_id r = uid \<and> u_status r = ''Occupied'' \<and> u_tenant_id r = Some tid"
        unfolding eq' fl(3)
        by (rule unit_row_after_map [OF find_in_set [OF fu, THEN conjunct1]
              find_in_set [OF fu, THEN conjunct2]])
      show "\<exists>r \<in> set (tenants (fst (assign_tenant s f))).
              t_id r = tid \<and> t_property_id r = Some pid \<and> t_unit_id r = Some uid"
        unfolding eq' fl(2)
        by (rule tenant_row_after_map [OF find_in_set [OF assms(5), THEN conjunct1]
              find_in_set [OF assms(5), THEN conjunct2]])
      show "snd (assign_tenant s f) = Inr Tenant_assigned"
        unfolding eq' by (rule fl(1))
      show "\<forall>r \<in> set (property_units (fst (assign_tenant s f))).
              u_id r = uid \<longrightarrow> u_status r = ''Occupied'' \<and> u_tenant_id r = Some tid"
        unfolding eq' fl(3) by (rule units_after_map)
      show "\<forall>r \<in> set (tenants (fst (assign_tenant s f))).
              t_id r = tid \<longrightarrow> t_property_id r = Some pid \<and> t_unit_id r = Some uid"
        unfolding eq' fl(2) by (rule tenants_after_map)
      show "properties (fst (assign_tenant s f)) =
              (if \<forall>r \<in> set (property_units (fst (assign_tenant s f))).
                    u_property_id r = pid \<longrightarrow> u_status r = ''Occupied''
               then map (\<lambda>r. if p_id r = pid then r\<lparr>p_status := ''Occupied''\<rparr> else r)
                      (properties s)
               else properties s)"
        unfolding eq' by (rule fl(4))
    }
  }
  {
    fix pr
    assume h: "\<not> truthy (t_property_id tn) \<and> \<not> truthy (t_unit_id tn)
            \<and> \<not> truthy (a_unit_id f)
            \<and> find (\<lambda>p. p_id p = pid) (properties s) = Some pr"
    note n1 = h [THEN conjunct1]
    note n2 = h [THEN conjunct2, THEN conjunct1]
    note au = h [THEN conjunct2, THEN conjunct2, THEN conjunct1]
    note fp = h [THEN conjunct2, THEN conjunct2, THEN conjunct2]
    have arg: "(if truthy (a_unit_id f) then a_unit_id f else None) = None"
      using au by simp
    note eq' = eq [unfolded arg]
    {
      assume "p_status pr \<noteq> ''Vacant''"
      then show "assign_tenant s f = (s, Inl Property_not_available)"
        unfolding eq' by (rule assign_rejections(4) [OF assms(5) n1 n2 fp])
    }
    {
      assume v: "p_status pr = ''Vacant''"
      note fl = assign_property_success_fields [OF assms(5) n1 n2 fp v]
      show "assign_tenant s f =
              (s\<lparr>tenants := map (\<lambda>r. if t_id r = tid
                             then r\<lparr>t_property_id := Some pid, t_unit_id := None\<rparr>
                             else r) (tenants s),
                 properties := map (\<lambda>r. if p_id r = pid
                             then r\<lparr>p_status := ''Occupied''\<rparr> else r) (properties s)\<rparr>,
               Inr Tenant_assigned)"
        unfolding eq' by (rule assign_property_success [OF assms(5) n1 n2 fp v])
      show "\<exists>r \<in> set (properties (fst (assign_tenant s f))).
              p_id r = pid \<and> p_status r = ''Occupied''"
        unfolding eq' fl(3)
        by (rule property_row_after_map [OF find_in_set [OF fp, THEN conjunct1]
              find_in_set [OF fp, THEN conjunct2]])
      show "\<exists>r \<in> set (tenants (fst (assign_tenant s f))).
              t_id r = tid \<and> t_property_id r = Some pid \<and> t_unit_id r = None"
        unfolding eq' fl(2)
        by (rule tenant_row_after_map [OF find_in_set [OF assms(5), THEN conjunct1]
              find_in_set [OF assms(5), THEN conjunct2]])
      show "snd (assign_tenant s f) = Inr Tenant_assigned"
        unfolding eq' by (rule fl(1))
      show "\<forall>r \<in> set (tenants (fst (assign_tenant s f))).
              t_id r = tid \<longrightarrow> t_property_id r = Some pid \<and> t_unit_id r = None"
        unfolding eq' fl(2) by (rule tenants_after_map)
      show "properties (fst (assign_tenant s f)) =
              map (\<lambda>r. if p_id r = pid then r\<lparr>p_status := ''Occupied''\<rparr> else r) (properties s)"
        unfolding eq' by (rule fl(3))
    }
  }
qed


lemma ex_assign_premises:
  "a_tenant_id (ex_assign_form uid) = Some 2" "(2::nat) \<noteq> 0"
  "a_property_id (ex_assign_form uid) = Some 2"
  "find (\<lambda>t. t_id t = 2) (tenants ex_db) = Some ex_tenant2"
  "\<not> truthy (t_property_id ex_tenant2)" "\<not> truthy (t_unit_id ex_tenant2)"
  "a_unit_id (ex_assign_form uid) = Some uid"
  "find (\<lambda>u. u_id u = 2) (property_units ex_db) = Some ex_unit2"
  "find (\<lambda>u. u_id u = 1) (property_units ex_db) = Some ex_unit1"
  "u_property_id ex_unit2 = 2" "u_status ex_unit2 \<noteq> ''Vacant''"
  "u_property_id ex_unit1 = 2" "u_status ex_unit1 = ''Vacant''"
  by (simp_all add: ex_assign_form_def ex_defs truthy_def)

theorem assign_tenant_rules_witness:
  "find (\<lambda>t. t_id t = 2) (tenants ex_db) = Some ex_tenant2
   \<and> find (\<lambda>u. u_id u = 2) (property_units ex_db) = Some ex_unit2
   \<and> u_status ex_unit2 = ''Occupied''
   \<and> assign_tenant ex_db (ex_assign_form 2) = (ex_db, Inl Unit_not_available)
   \<and> find (\<lambda>u. u_id u = 1) (property_units ex_db) = Some ex_unit1
   \<and> snd (assign_tenant ex_db (ex_assign_form 1)) = Inr Tenant_assigned"
proof -
  note p = ex_assign_premises
  note occupied = assign_tenant_rules [OF p(1) p(2) p(3) p(2) p(4), of 2,
      THEN conjunct2, THEN conjunct1, rule_format, of 2 ex_unit2]
  have h2: "\<not> truthy (t_property_id ex_tenant2) \<and> \<not> truthy (t_unit_id ex_tenant2)
            \<and> a_unit_id (ex_assign_form 2) = Some 2 \<and> (2::nat) \<noteq> 0
            \<and> find (\<lambda>u. u_id u = 2) (property_units ex_db) = Some ex_unit2"
    by (intro conjI p(5) p(6) p(7) p(2) p(8))
  have v2: "u_property_id ex_unit2 = 2 \<and> u_status ex_unit2 \<noteq> ''Vacant''"
    by (intro conjI p(10) p(11))
  have rej: "assign_tenant ex_db (ex_assign_form 2) = (ex_db, Inl Unit_not_available)"
    by (rule occupied [OF h2, THEN conjunct2, THEN conjunct1, rule_format, OF v2])
  note vacant = assign_tenant_rules [OF p(1) p(2) p(3) p(2) p(4), of 1,
      THEN conjunct2, THEN conjunct1, rule_format, of 1 ex_unit1]
  have h1: "\<not> truthy (t_property_id ex_tenant2) \<and> \<not> truthy (t_unit_id ex_tenant2)
            \<and> a_unit_id (ex_assign_form 1) = Some 1 \<and> (1::nat) \<noteq> 0
            \<and> find (\<lambda>u. u_id u = 1) (property_units ex_db) = Some ex_unit1"
    by (intro conjI p(5) p(6) p(7) p(9) one_neq_zero)
  have v1: "u_property_id ex_unit1 = 2 \<and> u_status ex_unit1 = ''Vacant''"
    by (intro conjI p(12) p(13))
  have acc: "snd (assign_tenant ex_db (ex_assign_form 1)) = Inr Tenant_assigned"
    by (rule vacant [OF h1, THEN conjunct2, THEN conjunct2, rule_format, OF v1,
          THEN conjunct2, THEN conjunct2, THEN conjunct2, THEN conjunct1])
  have occ: "u_status ex_unit2 = ''Occupied''" by (simp add: ex_unit2_def)
  show ?thesis by (intro conjI p(4) p(8) occ rej p(9) acc)
qed

section \<open>Claims about the landlord statement and the general balance\<close>

lemma running_lines: "map dl_line (fst (running b n xs)) = xs"
  by (induction xs arbitrary: b n) (simp_all add: Let_def)

lemma running_length: "length (fst (running b n xs)) = length xs"
  by (induction xs arbitrary: b n) (simp_all add: Let_def)

lemma running_sn: "i < length xs \<Longrightarrow> dl_sn (fst (running b n xs) ! i) = n + i"
proof (induction xs arbitrary: b n i)
  case Nil
  then show ?case by simp
next
  case (Cons x xs)
  then show ?case by (cases i) (simp_all add: Let_def)
qed

lemma running_step:
  "i < length xs \<Longrightarrow>
     dl_balance (fst (running b n xs) ! i) =
       fadd (if i = 0 then b else dl_balance (fst (running b n xs) ! (i - 1)))
            (fsub (sl_credit (xs ! i)) (sl_debit (xs ! i)))"
proof (induction xs arbitrary: b n i)
  case Nil
  then show ?case by simp
next
  case (Cons x xs)
  show ?case
  proof (cases i)
    case 0
    then show ?thesis by (simp add: Let_def)
  next
    case (Suc j)
    with Cons.prems have j: "j < length xs" by simp
    from Cons.IH [OF j, of "fadd b (fsub (sl_credit x) (sl_debit x))" "Suc n"] Suc
    show ?thesis by (cases j) (simp_all add: Let_def)
  qed
qed

lemma running_last:
  "xs \<noteq> [] \<Longrightarrow> dl_balance (last (fst (running b n xs))) = snd (running b n xs)"
proof (induction xs arbitrary: b n)
  case Nil
  then show ?case by simp
next
  case (Cons x xs)
  then show ?case by (cases xs) (simp_all add: Let_def)
qed

lemma running_empty: "snd (running b n []) = b"
  by simp

text \<open>Whole amounts whose absolute values add up to less than \<open>2^53\<close> are added without
  rounding.\<close>

lemma running_exact:
  assumes "\<forall>l \<in> set xs. sl_credit l \<in> \<int> \<and> sl_debit l \<in> \<int>"
      and "b \<in> \<int>"
      and "\<bar>b\<bar> + sum_list (map (\<lambda>l. \<bar>sl_credit l\<bar> + \<bar>sl_debit l\<bar>) xs) < 2 ^ 53"
  shows "snd (running b n xs) = b + sum_list (map sl_credit xs) - sum_list (map sl_debit xs)"
  using assms
proof (induction xs arbitrary: b n)
  case Nil
  then show ?case by simp
next
  case (Cons x xs)
  have nn: "0 \<le> sum_list (map (\<lambda>l. \<bar>sl_credit l\<bar> + \<bar>sl_debit l\<bar>) xs)"
    by (rule sum_list_nonneg) auto
  from Cons.prems(1) have cz: "sl_credit x \<in> \<int>" and dz: "sl_debit x \<in> \<int>"
    and rest: "\<forall>l \<in> set xs. sl_credit l \<in> \<int> \<and> sl_debit l \<in> \<int>"
    by simp_all
  from Cons.prems(3) have bound:
    "\<bar>b\<bar> + \<bar>sl_credit x\<bar> + \<bar>sl_debit x\<bar>
       + sum_list (map (\<lambda>l. \<bar>sl_credit l\<bar> + \<bar>sl_debit l\<bar>) xs) < 2 ^ 53"
    by simp
  have z1: "sl_credit x - sl_debit x \<in> \<int>" using cz dz by simp
  have b1: "\<bar>sl_credit x - sl_debit x\<bar> < 2 ^ 53" using bound nn by linarith
  have e1: "fsub (sl_credit x) (sl_debit x) = sl_credit x - sl_debit x"
    unfolding fsub_def by (rule double_round_exact_int [OF z1 b1])
  have z2: "b + (sl_credit x - sl_debit x) \<in> \<int>" using Cons.prems(2) z1 by simp
  have b2: "\<bar>b + (sl_credit x - sl_debit x)\<bar> < 2 ^ 53" using bound nn by linarith
  have e2: "fadd b (sl_credit x - sl_debit x) = b + (sl_credit x - sl_debit x)"
    unfolding fadd_def by (rule double_round_exact_int [OF z2 b2])
  have b3: "\<bar>b + (sl_credit x - sl_debit x)\<bar>
              + sum_list (map (\<lambda>l. \<bar>sl_credit l\<bar> + \<bar>sl_debit l\<bar>) xs) < 2 ^ 53"
    using bound by linarith
  have "snd (running b n (x # xs)) = snd (running (b + (sl_credit x - sl_debit x)) (Suc n) xs)"
    by (simp add: Let_def e1 e2)
  also have "\<dots> = b + (sl_credit x - sl_debit x) + sum_list (map sl_credit xs)
                     - sum_list (map sl_debit xs)"
    by (rule Cons.IH [OF rest z2 b3])
  finally show ?case by simp
qed

lemma sum_list_map_perm:
  fixes g :: "'a \<Rightarrow> rat"
  shows "mset ys = mset xs \<Longrightarrow> sum_list (map g ys) = sum_list (map g xs)"
proof -
  assume "mset ys = mset xs"
  then have "mset (map g ys) = mset (map g xs)" by simp
  then have "sum_mset (mset (map g ys)) = sum_mset (mset (map g xs))" by simp
  then show ?thesis by (simp only: sum_mset_sum_list)
qed

lemma running_exact_perm:
  assumes "\<forall>l \<in> set xs. sl_credit l \<in> \<int> \<and> sl_debit l \<in> \<int>"
      and "sum_list (map (\<lambda>l. \<bar>sl_credit l\<bar> + \<bar>sl_debit l\<bar>) xs) < 2 ^ 53"
      and "mset ys = mset xs"
  shows "snd (running 0 n ys) = sum_list (map sl_credit xs) - sum_list (map sl_debit xs)"
proof -
  from assms(3) have "set ys = set xs" by (rule mset_eq_setD)
  with assms(1) have a: "\<forall>l \<in> set ys. sl_credit l \<in> \<int> \<and> sl_debit l \<in> \<int>" by simp
  have b: "\<bar>0::rat\<bar> + sum_list (map (\<lambda>l. \<bar>sl_credit l\<bar> + \<bar>sl_debit l\<bar>) ys) < 2 ^ 53"
    using assms(2) sum_list_map_perm [OF assms(3), of "\<lambda>l. \<bar>sl_credit l\<bar> + \<bar>sl_debit l\<bar>"]
    by simp
  have z: "(0::rat) \<in> \<int>" by simp
  from running_exact [OF a z b, of n]
  show ?thesis
    by (simp add: sum_list_map_perm [OF assms(3), of sl_credit]
          sum_list_map_perm [OF assms(3), of sl_debit])
qed

text \<open>
  Claim C8, as amended. For the statement that landlord_account_detail builds: the lines are
  the merged sequence, which is ascending in date, numbered from 1; the running balance
  starts from 0 and each line's balance is the float sum of the previous line's balance and
  the float difference of the line's credit and debit; the final balance is the last line's
  balance (0 when there is no line). When all credits and debits are whole numbers whose
  absolute values add up to less than \<open>2^53\<close>, no addition rounds: the final balance is then
  the sum of all credits minus the sum of all debits, and running the loop over any
  reordering of the lines ends in the same balance.
\<close>

theorem statement_running_balance:
  assumes "landlord_account_detail s lid = Some (detailed, balance)"
  shows "map dl_line detailed = merged s lid
       \<and> sorted (map sl_date (merged s lid))
       \<and> (\<forall>i < length detailed.
            dl_sn (detailed ! i) = i + 1
          \<and> dl_balance (detailed ! i) =
              fadd (if i = 0 then 0 else dl_balance (detailed ! (i - 1)))
                   (fsub (sl_credit (dl_line (detailed ! i))) (sl_debit (dl_line (detailed ! i)))))
       \<and> balance = (if detailed = [] then 0 else dl_balance (last detailed))
       \<and> ((\<forall>l \<in> set (merged s lid). sl_credit l \<in> \<int> \<and> sl_debit l \<in> \<int>)
            \<and> sum_list (map (\<lambda>l. \<bar>sl_credit l\<bar> + \<bar>sl_debit l\<bar>) (merged s lid)) < 2 ^ 53
          \<longrightarrow> balance = sum_list (map sl_credit (merged s lid))
                          - sum_list (map sl_debit (merged s lid))
            \<and> (\<forall>ys. mset ys = mset (merged s lid) \<longrightarrow> snd (running 0 1 ys) = balance))"
proof -
  from assms have d: "detailed = fst (running 0 1 (merged s lid))"
    and b: "balance = snd (running 0 1 (merged s lid))"
    by (auto simp add: landlord_account_detail_def split: option.splits)
  have len: "length detailed = length (merged s lid)" unfolding d by (rule running_length)
  have lines: "map dl_line detailed = merged s lid" unfolding d by (rule running_lines)
  have srt: "sorted (map sl_date (merged s lid))"
    unfolding merged_def by (rule sorted_sort_key)
  have step: "\<forall>i < length detailed.
            dl_sn (detailed ! i) = i + 1
          \<and> dl_balance (detailed ! i) =
              fadd (if i = 0 then 0 else dl_balance (detailed ! (i - 1)))
                   (fsub (sl_credit (dl_line (detailed ! i))) (sl_debit (dl_line (detailed ! i))))"
  proof (intro allI impI conjI)
    fix i assume i: "i < length detailed"
    then have i': "i < length (merged s lid)" by (simp only: len)
    show "dl_sn (detailed ! i) = i + 1"
      unfolding d using running_sn [OF i', of 0 1] by simp
    have "dl_line (detailed ! i) = merged s lid ! i"
      using lines i by (metis nth_map)
    then show "dl_balance (detailed ! i) =
              fadd (if i = 0 then 0 else dl_balance (detailed ! (i - 1)))
                   (fsub (sl_credit (dl_line (detailed ! i))) (sl_debit (dl_line (detailed ! i))))"
      unfolding d using running_step [OF i', of 0 1] by simp
  qed
  have lst: "balance = (if detailed = [] then 0 else dl_balance (last detailed))"
  proof (cases "detailed = []")
    case True
    with len have "merged s lid = []" by simp
    with True show ?thesis unfolding b by simp
  next
    case False
    with len have "merged s lid \<noteq> []" by auto
    then have "dl_balance (last detailed) = balance"
      unfolding d b by (rule running_last)
    with False show ?thesis by simp
  qed
  have exact: "(\<forall>l \<in> set (merged s lid). sl_credit l \<in> \<int> \<and> sl_debit l \<in> \<int>)
            \<and> sum_list (map (\<lambda>l. \<bar>sl_credit l\<bar> + \<bar>sl_debit l\<bar>) (merged s lid)) < 2 ^ 53
          \<longrightarrow> balance = sum_list (map sl_credit (merged s lid))
                          - sum_list (map sl_debit (merged s lid))
            \<and> (\<forall>ys. mset ys = mset (merged s lid) \<longrightarrow> snd (running 0 1 ys) = balance)"
  proof (intro impI)
    assume h: "(\<forall>l \<in> set (merged s lid). sl_credit l \<in> \<int> \<and> sl_debit l \<in> \<int>)
            \<and> sum_list (map (\<lambda>l. \<bar>sl_credit l\<bar> + \<bar>sl_debit l\<bar>) (merged s lid)) < 2 ^ 53"
    note ints = h [THEN conjunct1] and bnd = h [THEN conjunct2]
    have self: "balance = sum_list (map sl_credit (merged s lid))
                          - sum_list (map sl_debit (merged s lid))"
      unfolding b by (rule running_exact_perm [OF ints bnd refl])
    have perm: "\<forall>ys. mset ys = mset (merged s lid) \<longrightarrow> snd (running 0 1 ys) = balance"
      unfolding self by (intro allI impI) (rule running_exact_perm [OF ints bnd])
    from self perm show "balance = sum_list (map sl_credit (merged s lid))
                          - sum_list (map sl_debit (merged s lid))
            \<and> (\<forall>ys. mset ys = mset (merged s lid) \<longrightarrow> snd (running 0 1 ys) = balance)"
      by (rule conjI)
  qed
  from lines srt step lst exact show ?thesis by (intro conjI)
qed

lemmas ex_ledger_defs = ex_db_ledger_def ex_credit_row_def ex_debit_row_def

lemma lower_credit: "lower ''credit'' = ''credit''"
  by (simp add: lower_def lower_char_def)

lemma lower_debit: "lower ''debit'' = ''debit''"
  by (simp add: lower_def lower_char_def)

lemma lower_Credit: "lower ''Credit'' = ''credit''"
  by code_simp

lemma ex_unsorted:
  "map payment_line (landlord_payments ex_db_ledger 1) @
   map manual_line (landlord_manual ex_db_ledger 1) =
   [payment_line (ex_full_row, Some ''Jane Doe''), manual_line ex_credit_row,
    manual_line ex_debit_row]"
  by (simp add: landlord_payments_def landlord_manual_def ex_ledger_defs ex_defs)

lemma ex_merged: "merged ex_db_ledger 1 = [payment_line (ex_full_row, Some ''Jane Doe''), manual_line ex_credit_row,
    manual_line ex_debit_row]"
  unfolding merged_def ex_unsorted
  by (simp add: payment_line_def manual_line_def ex_ledger_defs ex_defs)

lemma ex_line_amounts:
  "sl_credit (payment_line (ex_full_row, Some ''Jane Doe'')) = 1500"
  "sl_debit (payment_line (ex_full_row, Some ''Jane Doe'')) = 0"
  "sl_credit (manual_line ex_credit_row) = 2000" "sl_debit (manual_line ex_credit_row) = 0"
  "sl_credit (manual_line ex_debit_row) = 0" "sl_debit (manual_line ex_debit_row) = 200"
  by (simp_all add: payment_line_def manual_line_def lower_credit lower_debit
        ex_ledger_defs ex_defs)

theorem statement_running_balance_witness:
  "landlord_account_detail ex_db_ledger 1 = Some (fst (running 0 1 (merged ex_db_ledger 1)), 3300)
   \<and> sum_list (map (\<lambda>l. \<bar>sl_credit l\<bar> + \<bar>sl_debit l\<bar>) (merged ex_db_ledger 1)) = 3700
   \<and> sum_list (map sl_credit (merged ex_db_ledger 1))
       - sum_list (map sl_debit (merged ex_db_ledger 1)) = 3300
   \<and> mset [payment_line (ex_full_row, Some ''Jane Doe''), manual_line ex_debit_row,
            manual_line ex_credit_row] = mset (merged ex_db_ledger 1)
   \<and> snd (running 0 1 [payment_line (ex_full_row, Some ''Jane Doe''), manual_line ex_debit_row,
            manual_line ex_credit_row]) = 3300"
proof -
  have e: "landlord_account_detail ex_db_ledger 1 =
             Some (fst (running 0 1 (merged ex_db_ledger 1)), snd (running 0 1 (merged ex_db_ledger 1)))"
    by (simp add: landlord_account_detail_def ex_ledger_defs ex_defs)
  have ints: "\<forall>l \<in> set (merged ex_db_ledger 1). sl_credit l \<in> \<int> \<and> sl_debit l \<in> \<int>"
    unfolding ex_merged by (simp add: ex_line_amounts)
  have tot: "sum_list (map (\<lambda>l. \<bar>sl_credit l\<bar> + \<bar>sl_debit l\<bar>) (merged ex_db_ledger 1)) = 3700"
    unfolding ex_merged by (simp add: ex_line_amounts)
  have bnd: "sum_list (map (\<lambda>l. \<bar>sl_credit l\<bar> + \<bar>sl_debit l\<bar>) (merged ex_db_ledger 1)) < 2 ^ 53"
    unfolding tot by simp
  have sums: "sum_list (map sl_credit (merged ex_db_ledger 1))
       - sum_list (map sl_debit (merged ex_db_ledger 1)) = 3300"
    unfolding ex_merged by (simp add: ex_line_amounts)
  have ms: "mset [payment_line (ex_full_row, Some ''Jane Doe''), manual_line ex_debit_row,
            manual_line ex_credit_row] = mset (merged ex_db_ledger 1)"
    unfolding ex_merged by simp
  note inst = statement_running_balance [OF e, THEN conjunct2, THEN conjunct2, THEN conjunct2,
      THEN conjunct2, rule_format, OF conjI, OF ints bnd]
  have fin: "snd (running 0 1 (merged ex_db_ledger 1)) = 3300"
    using inst [THEN conjunct1] unfolding sums .
  have pm: "snd (running 0 1 [payment_line (ex_full_row, Some ''Jane Doe''), manual_line ex_debit_row,
            manual_line ex_credit_row]) = 3300"
    using inst [THEN conjunct2, rule_format, OF ms] unfolding fin .
  have first: "landlord_account_detail ex_db_ledger 1 =
                 Some (fst (running 0 1 (merged ex_db_ledger 1)), 3300)"
    using e by (simp only: fin)
  show ?thesis by (intro conjI first tot sums ms pm)
qed

text \<open>
  Claim C8 as first stated (the final balance is the sum of credits minus the sum of debits
  whatever the order of entries of one date) fails on floats: three credits of one day, 672.69,
  4237.32 and 3819.11, end in 8729.12 in the order entered and in 8729.119999999999 with the
  last two exchanged; neither is the exact sum of the three credits.
\<close>

theorem statement_running_balance_counterexample:
  "merged ex_db_three 1 =
     [manual_line (ex_manual 1 (67269 / 100)), manual_line (ex_manual 2 (423732 / 100)),
      manual_line (ex_manual 3 (381911 / 100))]
   \<and> sl_date (manual_line (ex_manual 2 (423732 / 100)))
       = sl_date (manual_line (ex_manual 3 (381911 / 100)))
   \<and> landlord_account_detail ex_db_three 1 =
       Some (fst (running 0 1 (merged ex_db_three 1)), 4798884470126019 / 549755813888)
   \<and> mset [manual_line (ex_manual 1 (67269 / 100)), manual_line (ex_manual 3 (381911 / 100)),
            manual_line (ex_manual 2 (423732 / 100))] = mset (merged ex_db_three 1)
   \<and> snd (running 0 1
        [manual_line (ex_manual 1 (67269 / 100)), manual_line (ex_manual 3 (381911 / 100)),
         manual_line (ex_manual 2 (423732 / 100))]) = 2399442235063009 / 274877906944
   \<and> snd (running 0 1
        [manual_line (ex_manual 1 (67269 / 100)), manual_line (ex_manual 3 (381911 / 100)),
         manual_line (ex_manual 2 (423732 / 100))]) \<noteq> snd (running 0 1 (merged ex_db_three 1))
   \<and> snd (running 0 1
        [manual_line (ex_manual 1 (67269 / 100)), manual_line (ex_manual 3 (381911 / 100)),
         manual_line (ex_manual 2 (423732 / 100))])
       \<noteq> sum_list (map sl_credit (merged ex_db_three 1))
           - sum_list (map sl_debit (merged ex_db_three 1))
   \<and> snd (running 0 1 (merged ex_db_three 1))
       \<noteq> sum_list (map sl_credit (merged ex_db_three 1))
           - sum_list (map sl_debit (merged ex_db_three 1))"
proof -
  have v: "double_round (67269 / 100) = 1479260953777275 / 2199023255552"
       "double_round (423732 / 100) = 582372826325975 / 137438953472"
       "double_round (381911 / 100) = 8398311705511199 / 2199023255552"
    by (simp_all add: double_eval)
  have l: "manual_line (ex_manual i a) =
      \<lparr>sl_date = ''2025-03-01'', sl_narration = ''Deposit'', sl_mode_of_payment = ''Cash'',
       sl_credit = double_round a, sl_debit = 0, sl_source = ''manual'', sl_meta_id = i\<rparr>" for i a
    by (simp add: manual_line_def ex_manual_def lower_credit)
  have mg: "merged ex_db_three 1 =
     [manual_line (ex_manual 1 (67269 / 100)), manual_line (ex_manual 2 (423732 / 100)),
      manual_line (ex_manual 3 (381911 / 100))]"
    unfolding l by (simp add: merged_def landlord_payments_def landlord_manual_def
          ex_db_three_def ex_db_def manual_line_def ex_manual_def lower_credit)
  have dt: "sl_date (manual_line (ex_manual 2 (423732 / 100)))
       = sl_date (manual_line (ex_manual 3 (381911 / 100)))"
    unfolding l by simp
  have s1: "fadd (1479260953777275 / 2199023255552) (582372826325975 / 137438953472)
              = 2699306543748219 / 549755813888"
    by (simp add: fadd_def double_eval)
  have s2: "fadd (2699306543748219 / 549755813888) (8398311705511199 / 2199023255552)
              = 4798884470126019 / 549755813888"
    by (simp add: fadd_def double_eval)
  have s3: "fadd (1479260953777275 / 2199023255552) (8398311705511199 / 2199023255552)
              = 4938786329644237 / 1099511627776"
    by (simp add: fadd_def double_eval)
  have s4: "fadd (4938786329644237 / 1099511627776) (582372826325975 / 137438953472)
              = 2399442235063009 / 274877906944"
    by (simp add: fadd_def double_eval)
  have id: "fsub x 0 = double_round x" "fadd 0 x = double_round x" for x
    by (simp_all add: fsub_def fadd_def)
  have dd: "double_round (1479260953777275 / 2199023255552) = 1479260953777275 / 2199023255552"
       "double_round (582372826325975 / 137438953472) = 582372826325975 / 137438953472"
       "double_round (8398311705511199 / 2199023255552) = 8398311705511199 / 2199023255552"
    by (simp_all add: double_eval)
  have r1: "snd (running 0 1 (merged ex_db_three 1)) = 4798884470126019 / 549755813888"
    unfolding mg l v by (simp add: Let_def id dd s1 s2)
  have r2: "snd (running 0 1
        [manual_line (ex_manual 1 (67269 / 100)), manual_line (ex_manual 3 (381911 / 100)),
         manual_line (ex_manual 2 (423732 / 100))]) = 2399442235063009 / 274877906944"
    unfolding l v by (simp add: Let_def id dd s3 s4)
  have e: "landlord_account_detail ex_db_three 1 =
       Some (fst (running 0 1 (merged ex_db_three 1)), 4798884470126019 / 549755813888)"
    unfolding r1 [symmetric]
    by (simp add: landlord_account_detail_def ex_db_three_def ex_db_def)
  have ms: "mset [manual_line (ex_manual 1 (67269 / 100)), manual_line (ex_manual 3 (381911 / 100)),
            manual_line (ex_manual 2 (423732 / 100))] = mset (merged ex_db_three 1)"
    unfolding mg by simp
  have ne: "snd (running 0 1
        [manual_line (ex_manual 1 (67269 / 100)), manual_line (ex_manual 3 (381911 / 100)),
         manual_line (ex_manual 2 (423732 / 100))]) \<noteq> snd (running 0 1 (merged ex_db_three 1))"
    unfolding r1 r2 by simp
  have sm: "sum_list (map sl_credit (merged ex_db_three 1))
           - sum_list (map sl_debit (merged ex_db_three 1)) = 9597768940252037 / 1099511627776"
    unfolding mg l v by simp
  have ns: "snd (running 0 1
        [manual_line (ex_manual 1 (67269 / 100)), manual_line (ex_manual 3 (381911 / 100)),
         manual_line (ex_manual 2 (423732 / 100))])
       \<noteq> sum_list (map sl_credit (merged ex_db_three 1))
           - sum_list (map sl_debit (merged ex_db_three 1))"
    unfolding r2 sm by simp
  have ns': "snd (running 0 1 (merged ex_db_three 1))
       \<noteq> sum_list (map sl_credit (merged ex_db_three 1))
           - sum_list (map sl_debit (merged ex_db_three 1))"
    unfolding r1 sm by simp
  show ?thesis by (intro conjI mg dt e ms r2 ne ns ns')
qed








end
